theory Spec2Isabelle
  imports Complex_Main
begin

section \<open>Errors\<close>

text \<open>
  Go's \<^verbatim>\<open>error\<close> values as a datatype.  \<open>ErrorNew\<close> stands for \<^verbatim>\<open>errors.New\<close> and
  for the leaf errors handed back by the operating system, by \<^verbatim>\<open>os/exec\<close> and by
  the Redis client; \<open>Errorf\<close> is \<^verbatim>\<open>fmt.Errorf\<close> with its format string and its
  arguments, unformatted; \<open>Join\<close> is \<^verbatim>\<open>errors.Join\<close>.  \<open>Canceled\<close> and
  \<open>DeadlineExceeded\<close> are the two values of \<^verbatim>\<open>ctx.Err()\<close>, \<open>EOF\<close> is \<^verbatim>\<open>io.EOF\<close>.
\<close>

datatype error =
    ErrorNew string
  | Errorf string "fmt_arg list"
  | Join "error list"
  | Canceled
  | DeadlineExceeded
  | EOF
and fmt_arg =
    ArgInt int
  | ArgStr string
  | ArgErr error

section \<open>internal/utils/retry.go\<close>

text \<open>
  Durations are \<^verbatim>\<open>time.Duration\<close>, a count of nanoseconds, as \<open>int\<close>.  The
  \<^verbatim>\<open>float64\<close> multiplier is the rational number it denotes.  The \<^verbatim>\<open>Logger\<close> field is
  left out: the logger calls of this file do not influence what is returned.
\<close>

definition Second :: int where
  "Second = 1000000000"

record RetryOptions =
  MaxRetries :: int
  InitialWait :: int
  MaxWait :: int
  Multiplier :: rat

definition DefaultRetryOptions :: RetryOptions where
  "DefaultRetryOptions =
     \<lparr>MaxRetries = 3, InitialWait = 1 * Second, MaxWait = 30 * Second, Multiplier = 2\<rparr>"

definition WithMaxRetries :: "RetryOptions \<Rightarrow> int \<Rightarrow> RetryOptions" where
  "WithMaxRetries opts maxRetries = opts\<lparr>MaxRetries := maxRetries\<rparr>"

definition WithInitialWait :: "RetryOptions \<Rightarrow> int \<Rightarrow> RetryOptions" where
  "WithInitialWait opts initialWait = opts\<lparr>InitialWait := initialWait\<rparr>"

definition WithMaxWait :: "RetryOptions \<Rightarrow> int \<Rightarrow> RetryOptions" where
  "WithMaxWait opts maxWait = opts\<lparr>MaxWait := maxWait\<rparr>"

definition WithMultiplier :: "RetryOptions \<Rightarrow> rat \<Rightarrow> RetryOptions" where
  "WithMultiplier opts multiplier = opts\<lparr>Multiplier := multiplier\<rparr>"

text \<open>
  The rationals that are \<^verbatim>\<open>float64\<close> values of magnitude at most \<open>2 ^ 53\<close>: the numbers
  \<open>n / 2 ^ k\<close> for an integer \<open>n\<close> of magnitude at most \<open>2 ^ 53\<close> (a significand of 53
  bits) and \<open>k \<le> 1074\<close> (the smallest exponent).
\<close>

definition float64_exact :: "rat \<Rightarrow> bool" where
  "float64_exact x =
     list_ex (\<lambda>k. let n = x * 2 ^ k in of_int \<lfloor>n\<rfloor> = n \<and> \<bar>n\<bar> \<le> 2 ^ 53) [0 ..< 1075]"

text \<open>
  \<^verbatim>\<open>time.Duration(float64(wait) * options.Multiplier)\<close>.  When \<^verbatim>\<open>wait\<close> converts to
  \<^verbatim>\<open>float64\<close> without rounding, the multiplier is a \<^verbatim>\<open>float64\<close> value and the product is
  one too, the multiplication is exact and the conversion back truncates towards zero
  (the product lies within \<open>2 ^ 53\<close>, far inside \<^verbatim>\<open>int64\<close>).  Otherwise the product may be
  rounded, or the conversion may leave the range of \<^verbatim>\<open>int64\<close>, where its result depends
  on the processor: the value is then whatever the machine computes, the parameter
  \<open>inexact\<close>, about which nothing is assumed.
\<close>

definition scale_wait :: "(int \<Rightarrow> rat \<Rightarrow> int) \<Rightarrow> int \<Rightarrow> rat \<Rightarrow> int" where
  "scale_wait inexact wait m =
     (let p = of_int wait * m
      in if \<bar>wait\<bar> \<le> 2 ^ 53 \<and> float64_exact m \<and> float64_exact p
         then (if 0 \<le> p then \<lfloor>p\<rfloor> else \<lceil>p\<rceil>)
         else inexact wait m)"

text \<open>
  \<^verbatim>\<open>context.Context\<close> is an interface, and so it is here: a record of the three
  things the retry loop asks of it, over the state \<open>'s\<close> of the world the operation
  runs in.
  \<^item> \<open>done_closed s\<close>: the channel \<^verbatim>\<open>ctx.Done()\<close> is closed in \<open>s\<close>, so that the
    non-blocking \<^verbatim>\<open>select\<close> with a \<^verbatim>\<open>default\<close> case takes the \<^verbatim>\<open>ctx.Done()\<close> case;
  \<^item> \<open>ctx_Err s\<close>: the value of \<^verbatim>\<open>ctx.Err()\<close> once the channel is closed;
  \<^item> \<open>after d s\<close>: the blocking \<^verbatim>\<open>select\<close> between \<^verbatim>\<open>time.After(d)\<close> and
    \<^verbatim>\<open>ctx.Done()\<close>; \<open>True\<close> when the timer fired, \<open>False\<close> when the context was
    cancelled first, with the state in which the \<^verbatim>\<open>select\<close> returned.
\<close>

record 's Context =
  done_closed :: "'s \<Rightarrow> bool"
  ctx_Err :: "'s \<Rightarrow> error"
  after :: "int \<Rightarrow> 's \<Rightarrow> bool \<times> 's"

text \<open>
  What a run of the loop did, for the claims that count invocations and waits: the
  result of every call of \<^verbatim>\<open>fn\<close> and every duration handed to \<^verbatim>\<open>time.After\<close>, oldest
  first.  The log is write-only.
\<close>

record retry_log =
  invoked :: "error option list"
  waited :: "int list"

definition no_log :: retry_log where
  "no_log = \<lparr>invoked = [], waited = []\<rparr>"

text \<open>
  The \<^verbatim>\<open>for attempt := 0; attempt <= options.MaxRetries; attempt++\<close> loop of
  \<^verbatim>\<open>RetryWithContext\<close>, from the loop test onwards.  \<open>err\<close> and \<open>wait\<close> are the
  variables of the same names.  When the test fails the function returns \<open>err\<close> as it
  stands (the \<^verbatim>\<open>return err\<close> after the loop).
\<close>

function retry_loop ::
  "(int \<Rightarrow> rat \<Rightarrow> int) \<Rightarrow> 's Context \<Rightarrow> ('s \<Rightarrow> error option \<times> 's) \<Rightarrow> RetryOptions \<Rightarrow> int \<Rightarrow> int \<Rightarrow>
   error option \<Rightarrow> retry_log \<Rightarrow> 's \<Rightarrow> error option \<times> retry_log \<times> 's"
where
  "retry_loop inexact ctx fn options attempt wait err lg s =
     (if attempt \<le> MaxRetries options then
        (let r = fn s; err1 = fst r; s1 = snd r;
             lg1 = lg\<lparr>invoked := invoked lg @ [err1]\<rparr>
         in case err1 of
              None \<Rightarrow> (None, lg1, s1)
            | Some e \<Rightarrow>
                if attempt = MaxRetries options then
                  (Some (Errorf ''max retries reached (%d): %w''
                           [ArgInt (MaxRetries options), ArgErr e]), lg1, s1)
                else if done_closed ctx s1 then
                  (Some (Errorf ''context cancelled during retry: %w''
                           [ArgErr (ctx_Err ctx s1)]), lg1, s1)
                else
                  (let lg2 = lg1\<lparr>waited := waited lg1 @ [wait]\<rparr>;
                       sel = after ctx wait s1; s2 = snd sel
                   in if fst sel then
                        retry_loop inexact ctx fn options (attempt + 1)
                          (min (scale_wait inexact wait (Multiplier options))
                             (MaxWait options))
                          err1 lg2 s2
                      else
                        (Some (Errorf ''context cancelled during retry wait: %w''
                                 [ArgErr (ctx_Err ctx s2)]),
                         lg2, s2)))
      else (err, lg, s))"
  by pat_completeness auto
termination
  by (relation "measure (\<lambda>(inexact, ctx, fn, options, attempt, wait, err, lg, s).
        nat (MaxRetries options + 1 - attempt))") auto

declare retry_loop.simps [simp del]

text \<open>
  \<^verbatim>\<open>RetryWithContext\<close> with its log.  \<^verbatim>\<open>options == nil\<close> is \<open>None\<close>.  The first
  argument is the parameter of \<open>scale_wait\<close>.
\<close>

definition RetryWithContext_log ::
  "(int \<Rightarrow> rat \<Rightarrow> int) \<Rightarrow> 's Context \<Rightarrow> ('s \<Rightarrow> error option \<times> 's) \<Rightarrow> RetryOptions option \<Rightarrow> 's \<Rightarrow>
   error option \<times> retry_log \<times> 's"
where
  "RetryWithContext_log inexact ctx fn options s =
     (let opts = (case options of None \<Rightarrow> DefaultRetryOptions | Some o' \<Rightarrow> o')
      in retry_loop inexact ctx fn opts 0 (InitialWait opts) None no_log s)"

definition RetryWithContext ::
  "(int \<Rightarrow> rat \<Rightarrow> int) \<Rightarrow> 's Context \<Rightarrow> ('s \<Rightarrow> error option \<times> 's) \<Rightarrow> RetryOptions option \<Rightarrow> 's \<Rightarrow>
   error option \<times> 's"
where
  "RetryWithContext inexact ctx fn options s =
     (let r = RetryWithContext_log inexact ctx fn options s in (fst r, snd (snd r)))"

subsection \<open>A context with a cancellation instant\<close>

text \<open>
  The claims about cancellation speak of time, so here is the context of the Go
  library over a world that carries a clock: \<open>time_now\<close> is the time in nanoseconds.
  \<open>cancel_ctx cancel_at e tie\<close> is a context whose \<^verbatim>\<open>Done\<close> channel is closed from the
  instant \<open>cancel_at\<close> on (\<open>None\<close>: never, as \<^verbatim>\<open>context.Background()\<close>) and whose
  \<^verbatim>\<open>Err()\<close> is then \<open>e\<close>.  The blocking \<^verbatim>\<open>select\<close> returns at the earlier of the two
  instants: the timer's, \<open>time_now + max 0 d\<close> (a timer with a non-positive duration fires
  at once), and the cancellation's.  When both fall on the same instant Go picks
  either case; \<open>tie\<close> says whether the cancellation is picked.
\<close>

record clock =
  time_now :: int

definition cancel_ctx :: "int option \<Rightarrow> error \<Rightarrow> bool \<Rightarrow> ('a clock_scheme) Context" where
  "cancel_ctx cancel_at e tie =
     \<lparr>done_closed = (\<lambda>s. case cancel_at of None \<Rightarrow> False | Some c \<Rightarrow> c \<le> time_now s),
      ctx_Err = (\<lambda>s. e),
      after = (\<lambda>d s.
        let tf = time_now s + max 0 d
        in case cancel_at of
             None \<Rightarrow> (True, s\<lparr>time_now := tf\<rparr>)
           | Some c \<Rightarrow>
               (let tc = max (time_now s) c
                in if tc < tf \<or> (tc = tf \<and> tie) then (False, s\<lparr>time_now := tc\<rparr>)
                   else (True, s\<lparr>time_now := tf\<rparr>)))\<rparr>"

text \<open>
  The backoff schedule of the specification: the wait number \<open>j\<close>, counted from 0, is
  \<open>min (InitialWait * Multiplier ^ j) MaxWait\<close>, a rational number.  \<open>exact_step opts j\<close>
  says that this wait and its product with the multiplier are within \<open>2 ^ 53\<close>
  nanoseconds and that the product is a whole number of nanoseconds: the conditions
  under which \<^verbatim>\<open>float64(wait) * options.Multiplier\<close> is computed without rounding and
  converted without truncation.  \<open>schedule_ok opts ws\<close> says that the list of waits \<open>ws\<close>
  follows the schedule as far as the steps before are exact.
\<close>

definition schedule :: "RetryOptions \<Rightarrow> nat \<Rightarrow> rat" where
  "schedule opts j =
     min (of_int (InitialWait opts) * Multiplier opts ^ j) (of_int (MaxWait opts))"

definition exact_step :: "RetryOptions \<Rightarrow> nat \<Rightarrow> bool" where
  "exact_step opts j =
     (let c = schedule opts j; p = c * Multiplier opts
      in \<bar>c\<bar> \<le> 2 ^ 53 \<and> \<bar>p\<bar> \<le> 2 ^ 53 \<and> of_int \<lfloor>p\<rfloor> = p)"

definition schedule_ok :: "RetryOptions \<Rightarrow> int list \<Rightarrow> bool" where
  "schedule_ok opts ws =
     (\<forall>k < length ws. (\<forall>j < k. exact_step opts j) \<longrightarrow> of_int (ws ! k) = schedule opts k)"

section \<open>The rate limiter (package utils)\<close>

text \<open>
  \<^verbatim>\<open>fmt.Sprintf("%d", n)\<close>.
\<close>

fun decimal_nat :: "nat \<Rightarrow> string" where
  "decimal_nat n =
     (if n < 10 then [char_of (48 + n)]
      else decimal_nat (n div 10) @ [char_of (48 + n mod 10)])"

declare decimal_nat.simps [simp del]

definition Sprintf_d :: "int \<Rightarrow> string" where
  "Sprintf_d i = (if i < 0 then CHR ''-'' # decimal_nat (nat (- i)) else decimal_nat (nat i))"

text \<open>
  The logger is the list of entries written to it (level, format string, the error
  among the arguments), kept here because one claim is about what is reported.
  \<^verbatim>\<open>time.Time\<close> values are nanoseconds since the epoch; \<^verbatim>\<open>time.Now()\<close> is an argument
  of \<open>Allow\<close>.  The mutex is not modelled: calls are taken one after the other.
\<close>

datatype log_level = LevelDebug | LevelInfo | LevelWarn | LevelError

type_synonym log_entry = "log_level \<times> string \<times> error option"

record counter =
  count :: int
  timestamp :: int

text \<open>
  The four operations of \<^verbatim>\<open>*redis.Client\<close> that the limiter calls, over the state
  \<open>'b\<close> of the server, each with the error of its \<^verbatim>\<open>.Err()\<close> or \<^verbatim>\<open>.Result()\<close>.  The
  context argument is part of what decides the outcome and is not passed.  The
  member of \<^verbatim>\<open>redis.Z\<close> is the string, the score the integer it was converted from.
\<close>

record 'b redis_Client =
  ZRemRangeByScore :: "string \<Rightarrow> string \<Rightarrow> string \<Rightarrow> 'b \<Rightarrow> error option \<times> 'b"
  ZCard :: "string \<Rightarrow> 'b \<Rightarrow> (int \<times> error option) \<times> 'b"
  ZAdd :: "string \<Rightarrow> int \<Rightarrow> string \<Rightarrow> 'b \<Rightarrow> error option \<times> 'b"
  Expire :: "string \<Rightarrow> int \<Rightarrow> 'b \<Rightarrow> error option \<times> 'b"

record 'b RateLimiter =
  enabled :: bool
  requestsMax :: int
  timeWindow :: int
  userLimit :: bool
  redisClient :: "'b redis_Client option"
  logger :: "log_entry list"
  counters :: "string \<rightharpoonup> counter"

text \<open>
  The value of an \<^verbatim>\<open>int64\<close> computation whose mathematical result is \<open>x\<close>: Go's integer
  arithmetic wraps around.  \<^verbatim>\<open>time.Duration(timeWindow) * time.Second\<close> is such a
  product.
\<close>

definition int64 :: "int \<Rightarrow> int" where
  "int64 x = (x + 2 ^ 63) mod 2 ^ 64 - 2 ^ 63"

definition NewRateLimiter ::
  "bool \<Rightarrow> int \<Rightarrow> int \<Rightarrow> bool \<Rightarrow> 'b redis_Client option \<Rightarrow> log_entry list \<Rightarrow> 'b RateLimiter"
where
  "NewRateLimiter enabled' requestsMax' timeWindow' userLimit' redisClient' logger' =
     \<lparr>enabled = enabled', requestsMax = requestsMax',
      timeWindow = int64 (timeWindow' * Second),
      userLimit = userLimit', redisClient = redisClient', logger = logger',
      counters = Map.empty\<rparr>"

text \<open>
  \<^verbatim>\<open>int64(rl.timeWindow.Seconds())\<close>: whole seconds, truncated towards zero.
\<close>

definition Seconds_int64 :: "int \<Rightarrow> int" where
  "Seconds_int64 d = (if 0 \<le> d then d div Second else - ((- d) div Second))"

definition log_to :: "'b RateLimiter \<Rightarrow> log_level \<Rightarrow> string \<Rightarrow> error option \<Rightarrow> 'b RateLimiter" where
  "log_to rl lv msg e = rl\<lparr>logger := logger rl @ [(lv, msg, e)]\<rparr>"

definition rate_limit_key :: "string \<Rightarrow> string" where
  "rate_limit_key identifier = ''rate_limit:'' @ identifier"

text \<open>
  \<open>allowRedis\<close> receives the client that \<open>Allow\<close> found non-nil in \<open>rl\<close>.
\<close>

definition allowRedis ::
  "'b RateLimiter \<Rightarrow> 'b redis_Client \<Rightarrow> string \<Rightarrow> int \<Rightarrow> 'b \<Rightarrow>
   (bool \<times> error option) \<times> 'b RateLimiter \<times> 'b"
where
  "allowRedis rl client identifier unixNano b =
     (let key = rate_limit_key identifier;
          now = unixNano div Second;
          windowStart = now - Seconds_int64 (timeWindow rl)
      in case ZRemRangeByScore client key ''0'' (Sprintf_d windowStart) b of
           (Some err, b1) \<Rightarrow>
             ((True, Some err),
              log_to rl LevelError ''Failed to remove old rate limit counts: %v'' (Some err), b1)
         | (None, b1) \<Rightarrow>
             (case ZCard client key b1 of
                ((cnt, Some err), b2) \<Rightarrow>
                  ((True, Some err),
                   log_to rl LevelError ''Failed to count rate limit requests: %v'' (Some err), b2)
              | ((cnt, None), b2) \<Rightarrow>
                  if cnt \<ge> requestsMax rl then
                    ((False, None),
                     log_to rl LevelWarn ''Rate limit exceeded for %s: %d requests in %v'' None, b2)
                  else
                    (case ZAdd client key now (Sprintf_d now) b2 of
                       (Some err, b3) \<Rightarrow>
                         ((True, Some err),
                          log_to rl LevelError ''Failed to add rate limit request: %v'' (Some err), b3)
                     | (None, b3) \<Rightarrow>
                         (case Expire client key (timeWindow rl) b3 of
                            (Some err, b4) \<Rightarrow>
                              ((True, None),
                               log_to rl LevelError ''Failed to set rate limit expiration: %v''
                                 (Some err), b4)
                          | (None, b4) \<Rightarrow> ((True, None), rl, b4)))))"

definition allowMemory :: "'b RateLimiter \<Rightarrow> string \<Rightarrow> int \<Rightarrow> bool \<times> 'b RateLimiter" where
  "allowMemory rl identifier now =
     (let exists = (counters rl identifier \<noteq> None);
          c = (case counters rl identifier of
                 None \<Rightarrow> \<lparr>count = 0, timestamp = 0\<rparr>
               | Some c' \<Rightarrow> c')
      in if \<not> exists \<or> now - timestamp c > timeWindow rl then
           (True, rl\<lparr>counters := (counters rl)(identifier \<mapsto> \<lparr>count = 1, timestamp = now\<rparr>)\<rparr>)
         else if count c \<ge> requestsMax rl then
           (False, log_to rl LevelWarn ''Rate limit exceeded for %s: %d requests in %v'' None)
         else
           (True, rl\<lparr>counters := (counters rl)(identifier \<mapsto> c\<lparr>count := count c + 1\<rparr>)\<rparr>))"

definition Allow ::
  "'b RateLimiter \<Rightarrow> string \<Rightarrow> int \<Rightarrow> 'b \<Rightarrow> (bool \<times> error option) \<times> 'b RateLimiter \<times> 'b"
where
  "Allow rl identifier unixNano b =
     (if \<not> enabled rl then ((True, None), rl, b)
      else
        (let identifier' = (if \<not> userLimit rl then ''global'' else identifier)
         in case redisClient rl of
              Some client \<Rightarrow> allowRedis rl client identifier' unixNano b
            | None \<Rightarrow>
                (let r = allowMemory rl identifier' unixNano in ((fst r, None), snd r, b))))"

section \<open>The retention sweep (internal/downloader)\<close>

text \<open>
  \<^verbatim>\<open>filepath.Join\<close> of two elements; the cleaning of the result (\<^verbatim>\<open>filepath.Clean\<close>) is
  not modelled.
\<close>

definition Minute :: int where
  "Minute = 60 * Second"

definition Hour :: int where
  "Hour = 60 * Minute"

definition filepath_Join :: "string \<Rightarrow> string \<Rightarrow> string" where
  "filepath_Join a b = (if a = [] then b else if b = [] then a else a @ ''/'' @ b)"

text \<open>
  One entry of \<^verbatim>\<open>os.ReadDir(d.downloadDir)\<close> together with what the file system
  answers for it during the sweep: \<open>Info\<close> is \<^verbatim>\<open>entry.Info()\<close> (an error, or the
  modification time), \<open>Open\<close> the error of \<^verbatim>\<open>os.Open(dirPath)\<close>, \<open>Readdirnames\<close> the
  error of \<^verbatim>\<open>f.Readdirnames(1)\<close> (\<open>Some EOF\<close> for a directory without entries, \<open>None\<close>
  when a name was read), \<open>RemoveAll\<close> the error of \<^verbatim>\<open>os.RemoveAll(dirPath)\<close>.
\<close>

record DirEntry =
  Name :: string
  IsDir :: bool
  Info :: "error + int"
  Open :: "error option"
  Readdirnames :: "error option"
  RemoveAll :: "error option"

definition isDirEmpty :: "DirEntry \<Rightarrow> bool \<times> error option" where
  "isDirEmpty d =
     (case Open d of
        Some err \<Rightarrow> (False, Some err)
      | None \<Rightarrow> if Readdirnames d = Some EOF then (True, None) else (False, Readdirnames d))"

text \<open>
  The state of the loop of \<^verbatim>\<open>CleanupDownloads\<close>: the variable \<^verbatim>\<open>cleanupErrors\<close>, and
  the paths for which \<^verbatim>\<open>os.RemoveAll\<close> returned nil.
\<close>

record sweep =
  cleanupErrors :: "error list"
  removed :: "string list"

fun cleanup_entries :: "string \<Rightarrow> int \<Rightarrow> DirEntry list \<Rightarrow> sweep \<Rightarrow> sweep" where
  "cleanup_entries downloadDir cutoffTime [] sw = sw"
| "cleanup_entries downloadDir cutoffTime (entry # entries) sw =
     (if \<not> IsDir entry then cleanup_entries downloadDir cutoffTime entries sw
      else
        (let dirPath = filepath_Join downloadDir (Name entry)
         in case Info entry of
              Inl err \<Rightarrow>
                cleanup_entries downloadDir cutoffTime entries
                  (sw\<lparr>cleanupErrors := cleanupErrors sw @
                       [Errorf ''failed to get info for %s: %w'' [ArgStr dirPath, ArgErr err]]\<rparr>)
            | Inr modTime \<Rightarrow>
                if modTime < cutoffTime then
                  (case isDirEmpty entry of
                     (isEmpty, err) \<Rightarrow>
                       if err = None \<and> isEmpty then
                         (case RemoveAll entry of
                            Some err' \<Rightarrow>
                              cleanup_entries downloadDir cutoffTime entries
                                (sw\<lparr>cleanupErrors := cleanupErrors sw @
                                     [Errorf ''failed to remove %s: %w'' [ArgStr dirPath, ArgErr err']]\<rparr>)
                          | None \<Rightarrow>
                              cleanup_entries downloadDir cutoffTime entries
                                (sw\<lparr>removed := removed sw @ [dirPath]\<rparr>))
                       else
                         (case err of
                            Some err' \<Rightarrow>
                              cleanup_entries downloadDir cutoffTime entries
                                (sw\<lparr>cleanupErrors := cleanupErrors sw @
                                     [Errorf ''failed to check if %s is empty: %w''
                                       [ArgStr dirPath, ArgErr err']]\<rparr>)
                          | None \<Rightarrow> cleanup_entries downloadDir cutoffTime entries sw))
                else cleanup_entries downloadDir cutoffTime entries sw))"

definition CleanupDownloads ::
  "string \<Rightarrow> error + DirEntry list \<Rightarrow> int \<Rightarrow> int \<Rightarrow> error option \<times> string list"
where
  "CleanupDownloads downloadDir readDir now maxAge =
     (case readDir of
        Inl err \<Rightarrow> (Some (Errorf ''failed to read download directory: %w'' [ArgErr err]), [])
      | Inr entries \<Rightarrow>
          (let cutoffTime = now - maxAge;
               sw = cleanup_entries downloadDir cutoffTime entries
                      \<lparr>cleanupErrors = [], removed = []\<rparr>
           in if length (cleanupErrors sw) > 0 then
                (Some (Errorf ''encountered %d errors during cleanup: %v''
                         [ArgInt (int (length (cleanupErrors sw))),
                          ArgErr (Join (cleanupErrors sw))]),
                 removed sw)
              else (None, removed sw)))"

text \<open>
  What the sweep does with one entry, stated without the loop: whether it removes
  it, and which errors it records for it.
\<close>

definition removable :: "int \<Rightarrow> DirEntry \<Rightarrow> bool" where
  "removable cutoffTime e =
     (IsDir e \<and> (case Info e of Inl err \<Rightarrow> False | Inr modTime \<Rightarrow> modTime < cutoffTime) \<and>
      isDirEmpty e = (True, None) \<and> RemoveAll e = None)"

definition entry_errors :: "string \<Rightarrow> int \<Rightarrow> DirEntry \<Rightarrow> error list" where
  "entry_errors downloadDir cutoffTime e =
     (let dirPath = filepath_Join downloadDir (Name e)
      in if \<not> IsDir e then []
         else case Info e of
                Inl err \<Rightarrow> [Errorf ''failed to get info for %s: %w'' [ArgStr dirPath, ArgErr err]]
              | Inr modTime \<Rightarrow>
                  if \<not> modTime < cutoffTime then []
                  else if isDirEmpty e = (True, None) then
                    (case RemoveAll e of
                       None \<Rightarrow> []
                     | Some err \<Rightarrow> [Errorf ''failed to remove %s: %w'' [ArgStr dirPath, ArgErr err]])
                  else (case snd (isDirEmpty e) of
                          None \<Rightarrow> []
                        | Some err \<Rightarrow>
                            [Errorf ''failed to check if %s is empty: %w''
                                       [ArgStr dirPath, ArgErr err]]))"

section \<open>The download pipeline (internal/downloader)\<close>

text \<open>
  The pipeline acts on the outside world through the operating system and three
  external programs.  The record \<open>'w OS\<close> holds what the code calls, as functions of
  the state \<open>'w\<close> of that world; nothing is assumed about them.
  \<^item> \<open>UnixNano\<close>: \<^verbatim>\<open>time.Now().UnixNano()\<close>;
  \<^item> \<open>MkdirAll\<close>, \<open>Rename\<close>, \<open>Remove\<close>: the functions of package \<^verbatim>\<open>os\<close> (the error of
    \<^verbatim>\<open>os.Remove\<close> is dropped by the caller);
  \<^item> \<open>CombinedOutput name args\<close>: \<^verbatim>\<open>exec.CommandContext(ctx, name, args...).CombinedOutput()\<close>
    (and \<^verbatim>\<open>exec.Command\<close> for the duration probe), the output and the error; a command
    killed because its context ended is one of the ways it fails;
  \<^item> \<open>Stat\<close>: \<^verbatim>\<open>os.Stat\<close>, the error or the size of the file;
  \<^item> \<open>Glob\<close>: \<^verbatim>\<open>filepath.Glob\<close>;
  \<^item> \<open>getCookiesArgs\<close>: the method \<^verbatim>\<open>getCookiesArgs\<close>, whose result (user agent from the
    environment, cookie file found by iterating over a Go map) only feeds the argument
    list of a command; its call of \<^verbatim>\<open>os.Getwd\<close> is taken to succeed;
  \<^item> \<open>Sscanf_duration\<close>: \<^verbatim>\<open>strings.TrimSpace\<close>, \<^verbatim>\<open>fmt.Sscanf(_, "%f", &duration)\<close> and
    \<^verbatim>\<open>int(duration)\<close>;
  \<^item> \<open>float64_inexact\<close>: the parameter of \<open>scale_wait\<close>, the machine's arithmetic where
    it is not exact.
  Logger calls are left out.
\<close>

record 'w OS =
  UnixNano :: "'w \<Rightarrow> int"
  MkdirAll :: "string \<Rightarrow> 'w \<Rightarrow> error option \<times> 'w"
  CombinedOutput :: "string \<Rightarrow> string list \<Rightarrow> 'w \<Rightarrow> (string \<times> error option) \<times> 'w"
  Stat :: "string \<Rightarrow> 'w \<Rightarrow> error + int"
  Glob :: "string \<Rightarrow> 'w \<Rightarrow> string list \<times> error option"
  Rename :: "string \<Rightarrow> string \<Rightarrow> 'w \<Rightarrow> error option \<times> 'w"
  Remove :: "string \<Rightarrow> 'w \<Rightarrow> 'w"
  getCookiesArgs :: "string \<Rightarrow> 'w \<Rightarrow> string list"
  Sscanf_duration :: "string \<Rightarrow> error + int"
  float64_inexact :: "int \<Rightarrow> rat \<Rightarrow> int"

record VideoDownloader =
  downloadDir :: string
  retryOpts :: RetryOptions
  dependencyPaths :: "string \<rightharpoonup> string"

record DownloadResult =
  VideoPath :: string
  VideoWithSubPath :: string
  AudioPath :: string
  SubtitlePath :: string
  HasSubtitle :: bool
  FileSize :: int
  Duration :: int
  Error :: "error option"
  ThumbnailPath :: string

text \<open>
  \<^verbatim>\<open>&DownloadResult{}\<close>.
\<close>

definition zero_DownloadResult :: DownloadResult where
  "zero_DownloadResult =
     \<lparr>VideoPath = [], VideoWithSubPath = [], AudioPath = [], SubtitlePath = [],
      HasSubtitle = False, FileSize = 0, Duration = 0, Error = None, ThumbnailPath = []\<rparr>"

definition NewVideoDownloader ::
  "string \<Rightarrow> int \<Rightarrow> (string \<rightharpoonup> string) \<Rightarrow> VideoDownloader" where
  "NewVideoDownloader downloadDir' maxRetries dependencyPaths' =
     \<lparr>downloadDir = downloadDir',
      retryOpts = WithMaxRetries DefaultRetryOptions maxRetries,
      dependencyPaths = dependencyPaths'\<rparr>"

text \<open>
  \<^verbatim>\<open>d.dependencyPaths[name]\<close>: the empty string for a missing key.
\<close>

definition dependencyPath :: "VideoDownloader \<Rightarrow> string \<Rightarrow> string" where
  "dependencyPath d name = (case dependencyPaths d name of None \<Rightarrow> [] | Some p \<Rightarrow> p)"

definition fileExists :: "'w OS \<Rightarrow> string \<Rightarrow> 'w \<Rightarrow> bool" where
  "fileExists os path w = (case Stat os path w of Inl err \<Rightarrow> False | Inr info \<Rightarrow> True)"

text \<open>
  \<^verbatim>\<open>strings.Contains\<close>.
\<close>

definition Contains :: "string \<Rightarrow> string \<Rightarrow> bool" where
  "Contains s substr =
     list_ex (\<lambda>i. take (length substr) (drop i s) = substr) [0 ..< Suc (length s)]"

text \<open>
  The loop of \<^verbatim>\<open>downloadThumbnail\<close> that looks for the largest file.
\<close>

definition largest_thumbnail :: "'w OS \<Rightarrow> string list \<Rightarrow> 'w \<Rightarrow> string \<times> int" where
  "largest_thumbnail os files w =
     fold (\<lambda>file (largestThumbnail, largestSize).
             case Stat os file w of
               Inl err \<Rightarrow> (largestThumbnail, largestSize)
             | Inr fileSize \<Rightarrow>
                 if fileSize > largestSize then (file, fileSize)
                 else (largestThumbnail, largestSize))
       files ([], 0)"

definition downloadThumbnail ::
  "'w OS \<Rightarrow> VideoDownloader \<Rightarrow> string \<Rightarrow> string \<Rightarrow> 'w \<Rightarrow> error option \<times> 'w" where
  "downloadThumbnail os d url downloadPath w =
     (let ytDlpPath = dependencyPath d ''yt-dlp''
      in if ytDlpPath = [] then (Some (ErrorNew ''yt-dlp executable path not found''), w)
         else
           (let args = getCookiesArgs os url w @
                  [''--skip-download'', ''--write-thumbnail'', ''--convert-thumbnails'', ''png'',
                   ''--write-all-thumbnails'', ''-v'', ''--print-traffic'',
                   ''-o'', filepath_Join downloadPath ''thumbnail'', url];
                r = CombinedOutput os ytDlpPath args w; w1 = snd r
            in case snd (fst r) of
                 Some err \<Rightarrow> (Some (Errorf ''thumbnail download failed: %w'' [ArgErr err]), w1)
               | None \<Rightarrow>
                   (let g = Glob os (filepath_Join downloadPath ''thumbnail*.png'') w1;
                        files = fst g
                    in if snd g \<noteq> None \<or> length files = 0 then
                         (Some (ErrorNew ''no thumbnail found after download''), w1)
                       else
                         (let largestThumbnail = fst (largest_thumbnail os files w1)
                          in if largestThumbnail \<noteq> [] then
                               (let newPath = filepath_Join downloadPath ''thumbnail.png'';
                                    w2 = (if largestThumbnail \<noteq> newPath
                                          then snd (Rename os largestThumbnail newPath w1)
                                          else w1);
                                    w3 = fold (\<lambda>file w'.
                                           if file \<noteq> largestThumbnail \<and> file \<noteq> newPath
                                           then Remove os file w' else w') files w2
                                in (None, w3))
                             else (None, w1)))))"

definition extractThumbnail ::
  "'w OS \<Rightarrow> VideoDownloader \<Rightarrow> string \<Rightarrow> string \<Rightarrow> 'w \<Rightarrow> error option \<times> 'w" where
  "extractThumbnail os d videoPath downloadPath w =
     (let ffmpegPath = dependencyPath d ''ffmpeg''
      in if ffmpegPath = [] then (Some (ErrorNew ''ffmpeg executable path not found''), w)
         else
           (let thumbnailPath = filepath_Join downloadPath ''thumbnail.png'';
                args = [''-i'', videoPath, ''-ss'', ''00:00:01'', ''-vframes'', ''1'',
                        ''-q:v'', ''1'', ''-vf'', ''scale=1920:-1'', thumbnailPath];
                r = CombinedOutput os ffmpegPath args w
            in case snd (fst r) of
                 Some err \<Rightarrow> (Some (Errorf ''thumbnail extraction failed: %w'' [ArgErr err]), snd r)
               | None \<Rightarrow> (None, snd r)))"

text \<open>
  The argument lists \<^verbatim>\<open>args\<close> and \<^verbatim>\<open>directArgs\<close> of \<^verbatim>\<open>downloadPrimaryVideo\<close>: with and
  without the external downloader.
\<close>

definition primaryVideo_args :: "'w OS \<Rightarrow> string \<Rightarrow> string \<Rightarrow> string \<Rightarrow> 'w \<Rightarrow> string list" where
  "primaryVideo_args os aria2cPath url downloadPath w =
     getCookiesArgs os url w @
       [''-f'', ''bv*[vcodec^=avc]+ba/best[ext=mp4][vcodec^=avc]'',
        ''--merge-output-format'', ''mp4'',
        ''--external-downloader'', aria2cPath,
        ''--external-downloader-args'',
        ''-x 16 -s 16 -k 1M --async-dns=false --async-dns-server=8.8.8.8,1.1.1.1'',
        ''-o'', filepath_Join downloadPath ''video_base.mp4'', url]"

definition primaryVideo_directArgs :: "'w OS \<Rightarrow> string \<Rightarrow> string \<Rightarrow> 'w \<Rightarrow> string list" where
  "primaryVideo_directArgs os url downloadPath w =
     getCookiesArgs os url w @
       [''-f'', ''bv*[vcodec^=avc]+ba/best[ext=mp4][vcodec^=avc]'',
        ''--merge-output-format'', ''mp4'',
        ''-o'', filepath_Join downloadPath ''video_base.mp4'', url]"

definition downloadPrimaryVideo ::
  "'w OS \<Rightarrow> VideoDownloader \<Rightarrow> string \<Rightarrow> string \<Rightarrow> 'w \<Rightarrow> error option \<times> 'w" where
  "downloadPrimaryVideo os d url downloadPath w =
     (let ytDlpPath = dependencyPath d ''yt-dlp'';
          aria2cPath = dependencyPath d ''aria2c''
      in if ytDlpPath = [] \<or> aria2cPath = [] then
           (Some (ErrorNew ''yt-dlp or aria2c executable path not found''), w)
         else
           (let r = CombinedOutput os ytDlpPath
                      (primaryVideo_args os aria2cPath url downloadPath w) w;
                w1 = snd r
            in case snd (fst r) of
                 Some err \<Rightarrow>
                   (let r' = CombinedOutput os ytDlpPath
                               (primaryVideo_directArgs os url downloadPath w1) w1
                    in case snd (fst r') of
                         Some directErr \<Rightarrow>
                           (Some (Errorf
                              ''video download failed with both aria2c and direct methods: %w''
                              [ArgErr directErr]), snd r')
                       | None \<Rightarrow> (None, snd r'))
               | None \<Rightarrow> (None, w1)))"

definition listAvailableSubtitles ::
  "'w OS \<Rightarrow> VideoDownloader \<Rightarrow> string \<Rightarrow> 'w \<Rightarrow> (string \<times> error option) \<times> 'w" where
  "listAvailableSubtitles os d url w =
     (let ytDlpPath = dependencyPath d ''yt-dlp''
      in if ytDlpPath = [] then (([], Some (ErrorNew ''yt-dlp executable path not found'')), w)
         else
           (let r = CombinedOutput os ytDlpPath [''--list-subs'', url] w
            in case snd (fst r) of
                 Some err \<Rightarrow> (([], Some (Errorf ''failed to list subtitles: %w'' [ArgErr err])), snd r)
               | None \<Rightarrow> ((fst (fst r), None), snd r)))"

definition downloadSubtitle ::
  "'w OS \<Rightarrow> VideoDownloader \<Rightarrow> string \<Rightarrow> string \<Rightarrow> string \<Rightarrow> 'w \<Rightarrow>
   (string \<times> error option) \<times> 'w" where
  "downloadSubtitle os d url lang downloadPath w =
     (let ytDlpPath = dependencyPath d ''yt-dlp''
      in if ytDlpPath = [] then (([], Some (ErrorNew ''yt-dlp executable path not found'')), w)
         else
           (let w0 = snd (listAvailableSubtitles os d url w);
                args = getCookiesArgs os url w0 @
                  [''--skip-download'', ''--write-subs'', ''--write-auto-sub'',
                   ''--sub-lang'', lang, ''--sub-format'', ''srt/vtt'',
                   ''-o'', filepath_Join downloadPath ''subtitle.%(language)s.%(ext)s'', url];
                r = CombinedOutput os ytDlpPath args w0; w1 = snd r;
                outputStr = fst (fst r)
            in case snd (fst r) of
                 Some err \<Rightarrow> (([], Some (Errorf ''subtitle download failed: %w'' [ArgErr err])), w1)
               | None \<Rightarrow>
                   if Contains outputStr ''There are no subtitles'' \<or>
                      Contains outputStr ''Subtitle not available''
                   then (([], None), w1)
                   else
                     (let subtitlePatterns =
                            [filepath_Join downloadPath (''subtitle.'' @ lang @ ''.srt''),
                             filepath_Join downloadPath (''subtitle.'' @ lang @ ''.vtt''),
                             filepath_Join downloadPath ''subtitle.srt'',
                             filepath_Join downloadPath ''subtitle.vtt''];
                          autoSubPatterns =
                            [filepath_Join downloadPath (''subtitle.'' @ lang @ ''.auto.srt''),
                             filepath_Join downloadPath (''subtitle.'' @ lang @ ''.auto.vtt'')];
                          allPatterns = subtitlePatterns @ autoSubPatterns
                      in case find (\<lambda>pattern. fileExists os pattern w1) allPatterns of
                           Some pattern \<Rightarrow> ((pattern, None), w1)
                         | None \<Rightarrow>
                             (let g = Glob os (filepath_Join downloadPath ''subtitle.*'') w1
                              in case fst g of
                                   file # files \<Rightarrow>
                                     if snd g = None then ((file, None), w1)
                                     else (([], Some (ErrorNew ''subtitle file not found'')), w1)
                                 | [] \<Rightarrow>
                                     (([], Some (ErrorNew ''subtitle file not found'')), w1)))))"

definition embedSubtitle ::
  "'w OS \<Rightarrow> VideoDownloader \<Rightarrow> string \<Rightarrow> string \<Rightarrow> string \<Rightarrow> 'w \<Rightarrow> error option \<times> 'w" where
  "embedSubtitle os d videoPath subtitlePath downloadPath w =
     (let ffmpegPath = dependencyPath d ''ffmpeg''
      in if ffmpegPath = [] then (Some (ErrorNew ''ffmpeg executable path not found''), w)
         else
           (let outputPath = filepath_Join downloadPath ''video_final.mp4'';
                args = [''-i'', videoPath, ''-vf'', ''subtitles='' @ subtitlePath,
                        ''-c:a'', ''copy'', outputPath];
                r = CombinedOutput os ffmpegPath args w
            in case snd (fst r) of
                 Some err \<Rightarrow> (Some (Errorf ''subtitle embedding failed: %w'' [ArgErr err]), snd r)
               | None \<Rightarrow> (None, snd r)))"

definition extractAudio ::
  "'w OS \<Rightarrow> VideoDownloader \<Rightarrow> string \<Rightarrow> string \<Rightarrow> 'w \<Rightarrow> error option \<times> 'w" where
  "extractAudio os d url downloadPath w =
     (let ytDlpPath = dependencyPath d ''yt-dlp''
      in if ytDlpPath = [] then (Some (ErrorNew ''yt-dlp executable path not found''), w)
         else
           (let args = getCookiesArgs os url w @
                  [''-f'', ''ba'', ''--extract-audio'', ''--audio-format'', ''mp3'',
                   ''-o'', filepath_Join downloadPath ''audio.%(ext)s'', url];
                r = CombinedOutput os ytDlpPath args w
            in case snd (fst r) of
                 Some err \<Rightarrow> (Some (Errorf ''audio extraction failed: %w'' [ArgErr err]), snd r)
               | None \<Rightarrow> (None, snd r)))"

definition getVideoDuration :: "'w OS \<Rightarrow> VideoDownloader \<Rightarrow> string \<Rightarrow> 'w \<Rightarrow> int \<times> 'w" where
  "getVideoDuration os d videoPath w =
     (let ffprobePath = dependencyPath d ''ffprobe''
      in if ffprobePath = [] then (0, w)
         else
           (let args = [''-v'', ''error'', ''-show_entries'', ''format=duration'',
                        ''-of'', ''default=noprint_wrappers=1:nokey=1'', videoPath];
                r = CombinedOutput os ffprobePath args w
            in case snd (fst r) of
                 Some err \<Rightarrow> (0, snd r)
               | None \<Rightarrow>
                   (case Sscanf_duration os (fst (fst r)) of
                      Inl err \<Rightarrow> (0, snd r)
                    | Inr duration \<Rightarrow> (duration, snd r))))"

text \<open>
  The subtitle stage retries a closure that assigns to the variable \<^verbatim>\<open>subtitlePath\<close> of
  \<^verbatim>\<open>Download\<close>.  The closure is \<open>subtitle_fn\<close>, on the state extended with that variable,
  and \<open>with_var\<close> lets the context look through the extension.
\<close>

definition with_var :: "'w Context \<Rightarrow> ('v \<times> 'w) Context" where
  "with_var ctx =
     \<lparr>done_closed = (\<lambda>s. done_closed ctx (snd s)),
      ctx_Err = (\<lambda>s. ctx_Err ctx (snd s)),
      after = (\<lambda>d s. let r = after ctx d (snd s) in (fst r, (fst s, snd r)))\<rparr>"

definition subtitle_fn ::
  "'w OS \<Rightarrow> VideoDownloader \<Rightarrow> string \<Rightarrow> string \<Rightarrow> string \<Rightarrow> string \<times> 'w \<Rightarrow>
   error option \<times> (string \<times> 'w)" where
  "subtitle_fn os d url captionLang downloadPath s =
     (let r = downloadSubtitle os d url captionLang downloadPath (snd s)
      in (snd (fst r), (fst (fst r), snd r)))"

text \<open>
  \<^verbatim>\<open>Download\<close>, in the order of the source.  Four of its blocks are named: the thumbnail
  download, the subtitle download with the embedding, the audio extraction and the
  thumbnail taken from the video.  Each takes the \<^verbatim>\<open>result\<close> built so far and returns it
  updated.
\<close>

definition Download_thumbnail ::
  "'w OS \<Rightarrow> VideoDownloader \<Rightarrow> 'w Context \<Rightarrow> string \<Rightarrow> string \<Rightarrow> DownloadResult \<Rightarrow> 'w \<Rightarrow>
   DownloadResult \<times> 'w" where
  "Download_thumbnail os d ctx url downloadPath result w =
     (let r = RetryWithContext (float64_inexact os) ctx
                (downloadThumbnail os d url downloadPath)
                (Some (retryOpts d)) w;
          w1 = snd r
      in if fst r \<noteq> None then (result, w1)
         else
           (let thumbnailPath = filepath_Join downloadPath ''thumbnail.png''
            in if fileExists os thumbnailPath w1
               then (result\<lparr>ThumbnailPath := thumbnailPath\<rparr>, w1)
               else (result, w1)))"

definition Download_subtitle ::
  "'w OS \<Rightarrow> VideoDownloader \<Rightarrow> 'w Context \<Rightarrow> string \<Rightarrow> string \<Rightarrow> string \<Rightarrow>
   DownloadResult \<Rightarrow> 'w \<Rightarrow> DownloadResult \<times> 'w" where
  "Download_subtitle os d ctx url captionLang downloadPath result w =
     (let r = RetryWithContext (float64_inexact os) (with_var ctx)
                (subtitle_fn os d url captionLang downloadPath) (Some (retryOpts d)) ([], w);
          err = fst r; subtitlePath = fst (snd r); w1 = snd (snd r)
      in if err \<noteq> None then (result, w1)
         else if subtitlePath \<noteq> [] then
           (let result1 = result\<lparr>SubtitlePath := subtitlePath, HasSubtitle := True\<rparr>;
                r2 = RetryWithContext (float64_inexact os) ctx
                       (embedSubtitle os d (VideoPath result1) subtitlePath downloadPath)
                       (Some (retryOpts d)) w1
            in if fst r2 \<noteq> None then (result1, snd r2)
               else (result1\<lparr>VideoWithSubPath :=
                              filepath_Join downloadPath ''video_final.mp4''\<rparr>, snd r2))
         else (result, w1))"

definition Download_audio ::
  "'w OS \<Rightarrow> VideoDownloader \<Rightarrow> 'w Context \<Rightarrow> string \<Rightarrow> string \<Rightarrow> DownloadResult \<Rightarrow> 'w \<Rightarrow>
   DownloadResult \<times> 'w" where
  "Download_audio os d ctx url downloadPath result w =
     (let r = RetryWithContext (float64_inexact os) ctx (extractAudio os d url downloadPath)
                (Some (retryOpts d)) w
      in if fst r \<noteq> None then (result, snd r)
         else (result\<lparr>AudioPath := filepath_Join downloadPath ''audio.mp3''\<rparr>, snd r))"

definition Download_thumbnail_fallback ::
  "'w OS \<Rightarrow> VideoDownloader \<Rightarrow> string \<Rightarrow> DownloadResult \<Rightarrow> 'w \<Rightarrow> DownloadResult \<times> 'w" where
  "Download_thumbnail_fallback os d downloadPath result w =
     (if ThumbnailPath result = [] \<and> VideoPath result \<noteq> [] then
        (let r = extractThumbnail os d (VideoPath result) downloadPath w
         in if fst r \<noteq> None then (result, snd r)
            else
              (let thumbnailPath = filepath_Join downloadPath ''thumbnail.png''
               in if fileExists os thumbnailPath (snd r)
                  then (result\<lparr>ThumbnailPath := thumbnailPath\<rparr>, snd r)
                  else (result, snd r)))
      else (result, w))"

definition Download ::
  "'w OS \<Rightarrow> VideoDownloader \<Rightarrow> 'w Context \<Rightarrow> string \<Rightarrow> string \<Rightarrow> 'w \<Rightarrow>
   (DownloadResult option \<times> error option) \<times> 'w" where
  "Download os d ctx url captionLang w =
     (let downloadID = Sprintf_d (UnixNano os w);
          downloadPath = filepath_Join (downloadDir d) downloadID;
          m = MkdirAll os downloadPath w
      in case fst m of
           Some err \<Rightarrow>
             ((None, Some (Errorf ''failed to create download directory: %w'' [ArgErr err])), snd m)
         | None \<Rightarrow>
             (let t = Download_thumbnail os d ctx url downloadPath zero_DownloadResult (snd m);
                  p = RetryWithContext (float64_inexact os) ctx
                        (downloadPrimaryVideo os d url downloadPath)
                        (Some (retryOpts d)) (snd t)
              in case fst p of
                   Some err \<Rightarrow>
                     ((None, Some (Errorf ''failed to download primary video after %d retries: %w''
                             [ArgInt (MaxRetries (retryOpts d)), ArgErr err])), snd p)
                 | None \<Rightarrow>
                     (let result1 = (fst t)\<lparr>VideoPath :=
                                       filepath_Join downloadPath ''video_base.mp4''\<rparr>;
                          result2 = (case Stat os (VideoPath result1) (snd p) of
                                       Inl err \<Rightarrow> result1
                                     | Inr fileSize \<Rightarrow> result1\<lparr>FileSize := fileSize\<rparr>);
                          s = Download_subtitle os d ctx url captionLang downloadPath result2
                                (snd p);
                          a = Download_audio os d ctx url downloadPath (fst s) (snd s);
                          dur = getVideoDuration os d (VideoPath (fst a)) (snd a);
                          result3 = (fst a)\<lparr>Duration := fst dur\<rparr>;
                          f = Download_thumbnail_fallback os d downloadPath result3 (snd dur)
                      in ((Some (fst f), None), snd f))))"

text \<open>
  What every returned result satisfies besides its video path: no error inside, and
  each artifact path either empty or the fixed name of that artifact in the run
  directory.
\<close>

definition artifacts_ok :: "string \<Rightarrow> DownloadResult \<Rightarrow> bool" where
  "artifacts_ok downloadPath r =
     (Error r = None \<and>
      (VideoWithSubPath r = [] \<or>
       VideoWithSubPath r = filepath_Join downloadPath ''video_final.mp4'' \<and> HasSubtitle r) \<and>
      (AudioPath r = [] \<or> AudioPath r = filepath_Join downloadPath ''audio.mp3'') \<and>
      (ThumbnailPath r = [] \<or> ThumbnailPath r = filepath_Join downloadPath ''thumbnail.png'') \<and>
      (HasSubtitle r \<longleftrightarrow> SubtitlePath r \<noteq> []))"

section \<open>Concrete operations, clients and directories\<close>

text \<open>
  A stand-in for the machine's inexact arithmetic, for runs that stay in the exact
  range; an operation that fails on every call and takes one second; a Redis server
  on which only \<^verbatim>\<open>EXPIRE\<close> fails; a run directory.
\<close>

definition no_inexact :: "int \<Rightarrow> rat \<Rightarrow> int" where
  "no_inexact wait m = 0"

definition always_fail :: "clock \<Rightarrow> error option \<times> clock" where
  "always_fail s = (Some (ErrorNew ''exit status 1''), s\<lparr>time_now := time_now s + Second\<rparr>)"

definition flaky_expire :: "unit redis_Client" where
  "flaky_expire =
     \<lparr>ZRemRangeByScore = (\<lambda>key lo hi b. (None, b)),
      ZCard = (\<lambda>key b. ((0, None), b)),
      ZAdd = (\<lambda>key score member b. (None, b)),
      Expire = (\<lambda>key d b. (Some (ErrorNew ''i/o timeout''), b))\<rparr>"

definition run_dir :: "string \<Rightarrow> int \<Rightarrow> error option \<Rightarrow> error option \<Rightarrow> DirEntry" where
  "run_dir name modTime open' names =
     \<lparr>Name = name, IsDir = True, Info = Inr modTime, Open = open', Readdirnames = names,
      RemoveAll = None\<rparr>"

text \<open>
  A context that is never cancelled; the four tools; a world in which every call
  succeeds, and variants of it: a read-only disk, no network, no subtitles, no audio.
\<close>

definition background :: "'s Context" where
  "background =
     \<lparr>done_closed = (\<lambda>s. False), ctx_Err = (\<lambda>s. Canceled), after = (\<lambda>d s. (True, s))\<rparr>"

definition tools :: "string \<rightharpoonup> string" where
  "tools = [''yt-dlp'' \<mapsto> ''/usr/bin/yt-dlp'', ''aria2c'' \<mapsto> ''/usr/bin/aria2c'',
            ''ffmpeg'' \<mapsto> ''/usr/bin/ffmpeg'', ''ffprobe'' \<mapsto> ''/usr/bin/ffprobe'']"

definition os_ok :: "unit OS" where
  "os_ok =
     \<lparr>UnixNano = (\<lambda>w. 1700000000000000001),
      MkdirAll = (\<lambda>path w. (None, w)),
      CombinedOutput = (\<lambda>name args w. (([], None), w)),
      Stat = (\<lambda>path w. Inr 1024),
      Glob = (\<lambda>pattern w. ([], None)),
      Rename = (\<lambda>old new w. (None, w)),
      Remove = (\<lambda>path w. w),
      getCookiesArgs = (\<lambda>url w. [''--geo-bypass-country'', ''US'']),
      Sscanf_duration = (\<lambda>str. Inr 0),
      float64_inexact = no_inexact\<rparr>"

definition os_read_only :: "unit OS" where
  "os_read_only = os_ok\<lparr>MkdirAll := (\<lambda>path w. (Some (ErrorNew ''read-only file system''), w))\<rparr>"

definition os_offline :: "unit OS" where
  "os_offline = os_ok\<lparr>CombinedOutput := (\<lambda>name args w. (([], Some (ErrorNew ''exit status 1'')), w))\<rparr>"

definition os_no_subtitles :: "unit OS" where
  "os_no_subtitles =
     os_ok\<lparr>CombinedOutput := (\<lambda>name args w.
        if ''--write-subs'' \<in> set args then (([], Some (ErrorNew ''exit status 1'')), w)
        else (([], None), w))\<rparr>"

definition dl :: VideoDownloader where
  "dl = NewVideoDownloader ''downloads'' 3 tools"

definition os_no_audio :: "unit OS" where
  "os_no_audio =
     os_ok\<lparr>CombinedOutput := (\<lambda>name args w.
        if ''--extract-audio'' \<in> set args then (([], Some (ErrorNew ''exit status 1'')), w)
        else (([], None), w))\<rparr>"

text \<open>
  A world that counts the failed video transfers: the first two transfers fail, every
  other command succeeds.
\<close>

definition os_flaky :: "nat OS" where
  "os_flaky =
     \<lparr>UnixNano = (\<lambda>w. 1700000000000000001),
      MkdirAll = (\<lambda>path w. (None, w)),
      CombinedOutput = (\<lambda>name args w.
        if ''--merge-output-format'' \<in> set args \<and> w < 2
        then (([], Some (ErrorNew ''exit status 1'')), w + 1)
        else (([], None), w)),
      Stat = (\<lambda>path w. Inr 1024),
      Glob = (\<lambda>pattern w. ([], None)),
      Rename = (\<lambda>old new w. (None, w)),
      Remove = (\<lambda>path w. w),
      getCookiesArgs = (\<lambda>url w. [''--geo-bypass-country'', ''US'']),
      Sscanf_duration = (\<lambda>str. Inr 0),
      float64_inexact = no_inexact\<rparr>"

section \<open>Properties of the retry loop\<close>

lemma retry_loop_exit:
  "MaxRetries options < attempt \<Longrightarrow> retry_loop fx ctx fn options attempt wait err lg s = (err, lg, s)"
  by (simp add: retry_loop.simps)

text \<open>
  C10.  With options whose \<open>MaxRetries\<close> is negative the loop body never runs:
  \<open>RetryWithContext\<close> returns a nil error, the operation is not invoked (the log of
  invocations is empty) and the state is untouched, whatever the operation and the
  context.
\<close>

theorem RetryWithContext_negative_MaxRetries:
  "MaxRetries opts < 0 \<Longrightarrow>
   RetryWithContext fx ctx fn (Some opts) s = (None, s) \<and>
   RetryWithContext_log fx ctx fn (Some opts) s = (None, no_log, s) \<and>
   invoked no_log = []"
  by (simp add: RetryWithContext_def RetryWithContext_log_def retry_loop_exit no_log_def)

theorem RetryWithContext_negative_MaxRetries_witness:
  "RetryWithContext no_inexact (cancel_ctx None Canceled False) always_fail
     (Some (WithMaxRetries DefaultRetryOptions (- 1))) \<lparr>time_now = 0\<rparr> = (None, \<lparr>time_now = 0\<rparr>)"
  using RetryWithContext_negative_MaxRetries[where opts = "WithMaxRetries DefaultRetryOptions (- 1)"
      and fx = no_inexact and ctx = "cancel_ctx None Canceled False" and fn = always_fail
      and s = "\<lparr>time_now = 0\<rparr>"]
  by (simp add: WithMaxRetries_def DefaultRetryOptions_def)




lemma float64_exact_dyadic:
  assumes "\<bar>n\<bar> \<le> 2 ^ 53" and "k < 1075"
  shows "float64_exact (of_int n / 2 ^ k)"
  unfolding float64_exact_def list_ex_iff Let_def
  using assms by (intro bexI[of _ k]) auto

lemma float64_exact_whole:
  assumes "of_int \<lfloor>p\<rfloor> = p" and "\<bar>p\<bar> \<le> 2 ^ 53"
  shows "float64_exact p"
  unfolding float64_exact_def list_ex_iff Let_def
  using assms by (intro bexI[of _ 0]) auto

lemma scale_wait_whole:
  assumes "\<bar>wait\<bar> \<le> 2 ^ 53" and "float64_exact m"
    and "of_int \<lfloor>of_int wait * m\<rfloor> = of_int wait * m" and "\<bar>of_int wait * m\<bar> \<le> 2 ^ 53"
  shows "of_int (scale_wait fx wait m) = of_int wait * m"
proof -
  let ?p = "of_int wait * m"
  have f: "float64_exact ?p" using assms(3,4) by (rule float64_exact_whole)
  have c: "\<lceil>?p\<rceil> = \<lfloor>?p\<rfloor>" using assms(3) by (metis ceiling_of_int)
  show ?thesis unfolding scale_wait_def Let_def using assms(1,2) f c assms(3) by simp
qed

lemma schedule_step:
  fixes I M :: int and m :: rat
  assumes "I \<le> M" and "0 \<le> m"
  shows "min (min (of_int I * m ^ j) (of_int M) * m) (of_int M) =
         min (of_int I * m ^ Suc j) (of_int M)"
proof -
  define x :: rat where "x = of_int I * m ^ j"
  define i :: rat where "i = of_int I"
  define c :: rat where "c = of_int M"
  have e: "of_int I * m ^ Suc j = x * m" by (simp add: x_def mult_ac)
  have ic: "i \<le> c" using assms(1) by (simp add: i_def c_def)
  have p0: "0 \<le> m ^ j" using assms(2) by simp
  have xi: "x = i * m ^ j" by (simp add: x_def i_def)
  have "min (min x c * m) c = min (x * m) c"
  proof (cases "x \<le> c")
    case True
    then show ?thesis by (simp add: min_absorb1)
  next
    case False
    then have gt: "c < x" by simp
    have "c \<le> c * m \<and> c \<le> x * m"
    proof (cases "1 \<le> m")
      case True
      then have p1: "1 \<le> m ^ j" by simp
      have c0: "0 \<le> c"
      proof (rule ccontr)
        assume "\<not> 0 \<le> c"
        then have "i \<le> 0" using ic by simp
        then have "i * m ^ j \<le> i * 1" using p1 by (rule mult_left_mono_neg[rotated])
        then show False using gt ic xi by simp
      qed
      have a: "c * 1 \<le> c * m" using True c0 by (rule mult_left_mono)
      have "0 \<le> x" using gt c0 by simp
      with True have "x * 1 \<le> x * m" by (rule mult_left_mono)
      with a gt show ?thesis by simp
    next
      case False
      then have lt1: "m \<le> 1" by simp
      have pj: "m ^ j \<le> 1" using assms(2) lt1 by (rule power_le_one)
      have c0: "c \<le> 0"
      proof (rule ccontr)
        assume "\<not> c \<le> 0"
        then have c0: "0 \<le> c" and "0 < x" using gt by simp_all
        then have "0 \<le> i" unfolding xi using p0
          by (metis less_le_not_le mult_nonpos_nonneg linorder_le_cases)
        with pj have "i * m ^ j \<le> i * 1" by (rule mult_left_mono)
        then show False using gt ic xi by simp
      qed
      have a: "c * 1 \<le> c * m" using lt1 c0 by (rule mult_left_mono_neg)
      have "i \<le> 0" using ic c0 by simp
      then have "x \<le> 0" unfolding xi using p0 by (rule mult_nonpos_nonneg)
      with lt1 have "x * 1 \<le> x * m" by (rule mult_left_mono_neg)
      with a gt show ?thesis by simp
    qed
    then have a: "c \<le> c * m" and b: "c \<le> x * m" by blast+
    have m: "min x c = c" using gt by (intro min_absorb2) simp
    show ?thesis unfolding m min_absorb2[OF a] min_absorb2[OF b] ..
  qed
  then show ?thesis unfolding e by (simp add: x_def c_def)
qed


lemma float64_exact_numeral:
  "(numeral n :: rat) \<le> 2 ^ 53 \<Longrightarrow> float64_exact (numeral n)"
  by (rule float64_exact_whole) simp_all

lemma float64_exact_neg_numeral:
  "(numeral n :: rat) \<le> 2 ^ 53 \<Longrightarrow> float64_exact (- numeral n)"
  by (rule float64_exact_whole) simp_all

lemma next_wait:
  assumes le: "InitialWait opts \<le> MaxWait opts" and m0: "0 \<le> Multiplier opts"
    and fm: "float64_exact (Multiplier opts)"
    and w: "(\<forall>j < k. exact_step opts j) \<longrightarrow> of_int wait = schedule opts k"
  shows "(\<forall>j < Suc k. exact_step opts j) \<longrightarrow>
         of_int (min (scale_wait fx wait (Multiplier opts)) (MaxWait opts)) = schedule opts (Suc k)"
proof
  assume a: "\<forall>j < Suc k. exact_step opts j"
  then have c: "rat_of_int wait = schedule opts k" using w by simp
  from a have "exact_step opts k" by simp
  then have b: "\<bar>rat_of_int wait\<bar> \<le> 2 ^ 53" "\<bar>of_int wait * Multiplier opts\<bar> \<le> 2 ^ 53"
      "of_int \<lfloor>of_int wait * Multiplier opts\<rfloor> = of_int wait * Multiplier opts"
    unfolding exact_step_def Let_def c[symmetric] by simp_all
  have "rat_of_int \<bar>wait\<bar> \<le> rat_of_int (2 ^ 53)" using b(1) by simp
  then have bw: "\<bar>wait\<bar> \<le> 2 ^ 53" by (simp only: of_int_le_iff)
  have s: "rat_of_int (scale_wait fx wait (Multiplier opts)) = of_int wait * Multiplier opts"
    using bw fm b(3) b(2) by (rule scale_wait_whole)
  have "rat_of_int (min (scale_wait fx wait (Multiplier opts)) (MaxWait opts)) =
        min (schedule opts k * Multiplier opts) (of_int (MaxWait opts))"
    unfolding of_int_min s c ..
  also have "\<dots> = schedule opts (Suc k)"
    unfolding schedule_def using le m0 by (rule schedule_step)
  finally show "rat_of_int (min (scale_wait fx wait (Multiplier opts)) (MaxWait opts)) =
        schedule opts (Suc k)" .
qed

lemma schedule_ok_snoc:
  "schedule_ok opts ws \<Longrightarrow>
   (\<forall>j < length ws. exact_step opts j) \<longrightarrow> of_int w = schedule opts (length ws) \<Longrightarrow>
   schedule_ok opts (ws @ [w])"
  by (auto simp: schedule_ok_def nth_append less_Suc_eq)

lemma retry_loop_waits:
  assumes le: "InitialWait opts \<le> MaxWait opts" and m0: "0 \<le> Multiplier opts"
    and fm: "float64_exact (Multiplier opts)"
  shows "n = nat (MaxRetries opts + 1 - attempt) \<Longrightarrow>
    schedule_ok opts (waited lg) \<Longrightarrow>
    (\<forall>j < length (waited lg). exact_step opts j) \<longrightarrow>
       of_int wait = schedule opts (length (waited lg)) \<Longrightarrow>
    schedule_ok opts (waited (fst (snd (retry_loop fx ctx fn opts attempt wait err lg s))))"
proof (induction n arbitrary: attempt wait err lg s)
  case 0
  then have "MaxRetries opts < attempt" by simp
  then show ?case using 0 by (simp add: retry_loop_exit)
next
  case (Suc n)
  then have n: "n = nat (MaxRetries opts + 1 - (attempt + 1))" and le': "attempt \<le> MaxRetries opts"
    by auto
  let ?w2 = "min (scale_wait fx wait (Multiplier opts)) (MaxWait opts)"
  let ?ws2 = "waited lg @ [wait]"
  have ok2: "schedule_ok opts ?ws2"
    using Suc.prems(2,3) by (rule schedule_ok_snoc)
  have w2: "(\<forall>j < length ?ws2. exact_step opts j) \<longrightarrow> of_int ?w2 = schedule opts (length ?ws2)"
    using next_wait[OF le m0 fm Suc.prems(3), of fx] by simp
  have IH: "schedule_ok opts
      (waited (fst (snd (retry_loop fx ctx fn opts (attempt + 1) ?w2 e' lg2 s2))))"
    if "waited lg2 = ?ws2" for e' lg2 s2
    using Suc.IH[OF n, of lg2 ?w2 e' s2] ok2 w2 that by simp
  show ?case
    apply (subst retry_loop.simps)
    using le' Suc.prems(2) ok2
    by (auto simp: Let_def IH split: option.split)
qed

lemma not_float64_exact:
  assumes "2 ^ 53 < \<bar>x\<bar>"
  shows "\<not> float64_exact x"
proof -
  have "2 ^ 53 < \<bar>x * 2 ^ k\<bar>" for k :: nat
  proof -
    have "\<bar>x\<bar> * 1 \<le> \<bar>x\<bar> * 2 ^ k" by (intro mult_left_mono) simp_all
    then show ?thesis using assms by (simp add: abs_mult)
  qed
  then show ?thesis
    unfolding float64_exact_def list_ex_iff Let_def by (auto simp: not_le)
qed

text \<open>
  Beyond \<open>2 ^ 53\<close> nanoseconds the product is whatever the machine computes.  The
  default policy with a multiplier of \<open>10 ^ 10\<close> is such a case: the product of the
  first wait, \<open>10 ^ 19\<close>, is outside the range of \<^verbatim>\<open>int64\<close>.
\<close>

lemma scale_wait_out_of_range:
  "2 ^ 53 < \<bar>of_int wait * m\<bar> \<Longrightarrow> scale_wait fx wait m = fx wait m"
  by (simp add: scale_wait_def Let_def not_float64_exact)

lemma scale_wait_default_1e10:
  "scale_wait fx (InitialWait DefaultRetryOptions) (10 ^ 10) = fx (1 * Second) (10 ^ 10)"
  by (simp add: scale_wait_out_of_range DefaultRetryOptions_def Second_def)

text \<open>
  C5 (amended).  Take a policy with \<open>InitialWait \<le> MaxWait\<close> whose multiplier is
  non-negative and a \<^verbatim>\<open>float64\<close> value, and \<open>k \<ge> 1\<close> such that a \<open>k\<close>-th wait is
  performed and every step before it is exact: for each \<open>j < k - 1\<close> the scheduled
  wait \<open>c = min (InitialWait * Multiplier ^ j) MaxWait\<close> and the product
  \<open>c * Multiplier\<close> have a magnitude of at most \<open>2 ^ 53\<close> nanoseconds and the product is a
  whole number of nanoseconds.  Then the wait performed before retry attempt \<open>k\<close> is
  \<open>min (InitialWait * Multiplier ^ (k - 1)) MaxWait\<close>, whatever the operation, the
  context and the machine's inexact arithmetic do.
\<close>

theorem backoff_schedule:
  assumes "InitialWait opts \<le> MaxWait opts"
    and "0 \<le> Multiplier opts" and "float64_exact (Multiplier opts)"
    and "\<forall>j < k - 1. exact_step opts j"
    and "1 \<le> k" and "k \<le> length (waited (fst (snd (RetryWithContext_log fx ctx fn (Some opts) s))))"
  shows "of_int (waited (fst (snd (RetryWithContext_log fx ctx fn (Some opts) s))) ! (k - 1)) =
           min (of_int (InitialWait opts) * Multiplier opts ^ (k - 1)) (of_int (MaxWait opts))"
proof -
  have "schedule_ok opts
      (waited (fst (snd (retry_loop fx ctx fn opts 0 (InitialWait opts) None no_log s))))"
    using assms(1)
    by (intro retry_loop_waits[OF assms(1-3) refl]) (simp_all add: no_log_def schedule_ok_def schedule_def)
  then show ?thesis using assms(4-6)
    by (simp add: RetryWithContext_log_def schedule_ok_def schedule_def)
qed

lemma default_waits:
  "waited (fst (snd (RetryWithContext_log no_inexact (cancel_ctx None Canceled False) always_fail
       (Some DefaultRetryOptions) \<lparr>time_now = 0\<rparr>))) = [1 * Second, 2 * Second, 4 * Second]"
  by (simp add: RetryWithContext_log_def retry_loop.simps always_fail_def Let_def
        cancel_ctx_def no_log_def DefaultRetryOptions_def scale_wait_def Second_def
        float64_exact_numeral)

theorem backoff_schedule_witness:
  "of_int (waited (fst (snd (RetryWithContext_log no_inexact (cancel_ctx None Canceled False)
       always_fail (Some DefaultRetryOptions) \<lparr>time_now = 0\<rparr>))) ! (3 - 1)) =
     min (of_int (1 * Second) * (2 :: rat) ^ (3 - 1)) (of_int (30 * Second))"
proof -
  have h1: "InitialWait DefaultRetryOptions \<le> MaxWait DefaultRetryOptions"
    and h2: "0 \<le> Multiplier DefaultRetryOptions"
    and h3: "float64_exact (Multiplier DefaultRetryOptions)"
    by (simp_all add: DefaultRetryOptions_def float64_exact_numeral Second_def)
  have h4: "\<forall>j < 3 - 1. exact_step DefaultRetryOptions j"
    by (simp add: DefaultRetryOptions_def exact_step_def schedule_def Let_def numeral_2_eq_2
          less_Suc_eq Second_def)
  have h6: "3 \<le> length (waited (fst (snd (RetryWithContext_log no_inexact
       (cancel_ctx None Canceled False) always_fail (Some DefaultRetryOptions)
       \<lparr>time_now = 0\<rparr>))))"
    unfolding default_waits by simp
  from backoff_schedule[OF h1 h2 h3 h4 _ h6] show ?thesis
    by (simp add: DefaultRetryOptions_def)
qed

text \<open>
  C5 as stated fails in three ways, each on a policy of its own.  With
  \<open>InitialWait > MaxWait\<close> the first wait is the initial wait: the cap is applied only
  after the multiplication.  With 5 ns and a multiplier of \<open>3 / 2\<close> the second wait is
  7 ns, not 7.5 ns: the product is truncated to whole nanoseconds.  With 1 ns, a cap
  of 10 ns and a multiplier of \<open>- 2\<close> the sixth wait is \<open>- 20\<close> ns, the capped fifth wait
  times the multiplier, not \<open>- 32\<close> ns.
\<close>

theorem backoff_schedule_counterexample:
  "of_int (waited (fst (snd (RetryWithContext_log no_inexact (cancel_ctx None Canceled False)
       always_fail
       (Some \<lparr>MaxRetries = 1, InitialWait = 60 * Second, MaxWait = 30 * Second,
               Multiplier = 2\<rparr>)
       \<lparr>time_now = 0\<rparr>))) ! (1 - 1))
   \<noteq> min (of_int (60 * Second) * (2 :: rat) ^ (1 - 1)) (of_int (30 * Second)) \<and>
   of_int (waited (fst (snd (RetryWithContext_log no_inexact (cancel_ctx None Canceled False)
       always_fail
       (Some \<lparr>MaxRetries = 2, InitialWait = 5, MaxWait = 100, Multiplier = 3 / 2\<rparr>)
       \<lparr>time_now = 0\<rparr>))) ! (2 - 1))
   \<noteq> min (of_int 5 * (3 / 2 :: rat) ^ (2 - 1)) (of_int 100) \<and>
   of_int (waited (fst (snd (RetryWithContext_log no_inexact (cancel_ctx None Canceled False)
       always_fail
       (Some \<lparr>MaxRetries = 6, InitialWait = 1, MaxWait = 10, Multiplier = - 2\<rparr>)
       \<lparr>time_now = 0\<rparr>))) ! (6 - 1))
   \<noteq> min (of_int 1 * (- 2 :: rat) ^ (6 - 1)) (of_int 10)"
proof -
  have f: "float64_exact (3 / 2)" "float64_exact (15 / 2)"
    using float64_exact_dyadic[of 3 1] float64_exact_dyadic[of 15 1] by simp_all
  have fl: "\<lfloor>15 / 2 :: rat\<rfloor> = 7" by (rule floor_unique) simp_all
  have a: "waited (fst (snd (RetryWithContext_log no_inexact (cancel_ctx None Canceled False)
       always_fail
       (Some \<lparr>MaxRetries = 1, InitialWait = 60 * Second, MaxWait = 30 * Second,
               Multiplier = 2\<rparr>)
       \<lparr>time_now = 0\<rparr>))) = [60 * Second]"
    by (simp add: RetryWithContext_log_def retry_loop.simps always_fail_def Let_def
        cancel_ctx_def no_log_def Second_def)
  have b: "waited (fst (snd (RetryWithContext_log no_inexact (cancel_ctx None Canceled False)
       always_fail
       (Some \<lparr>MaxRetries = 2, InitialWait = 5, MaxWait = 100, Multiplier = 3 / 2\<rparr>)
       \<lparr>time_now = 0\<rparr>))) = [5, 7]"
    by (simp add: RetryWithContext_log_def retry_loop.simps always_fail_def Let_def
        cancel_ctx_def no_log_def scale_wait_def f fl)
  have c: "waited (fst (snd (RetryWithContext_log no_inexact (cancel_ctx None Canceled False)
       always_fail
       (Some \<lparr>MaxRetries = 6, InitialWait = 1, MaxWait = 10, Multiplier = - 2\<rparr>)
       \<lparr>time_now = 0\<rparr>))) = [1, - 2, 4, - 8, 10, - 20]"
    by (simp add: RetryWithContext_log_def retry_loop.simps always_fail_def Let_def
        cancel_ctx_def no_log_def scale_wait_def float64_exact_numeral float64_exact_neg_numeral)
  show ?thesis unfolding a b c by (simp add: Second_def)
qed

text \<open>
  C6 (amended).  With \<open>MaxRetries \<ge> 1\<close> and an operation that fails on every
  invocation, if the context is cancelled strictly before the first inter-attempt
  wait would complete (the instant \<open>c\<close> lies before the return of the first invocation
  plus the initial wait), \<open>RetryWithContext\<close> returns a cancellation error wrapping
  \<^verbatim>\<open>ctx.Err()\<close>, not the max-retries error.
\<close>

theorem cancelled_before_first_wait:
  assumes "1 \<le> MaxRetries opts"
    and "\<forall>s. fst (fn s) \<noteq> None"
    and "c < time_now (snd (fn s)) + max 0 (InitialWait opts)"
  shows "fst (RetryWithContext_log fx (cancel_ctx (Some c) e tie) fn (Some opts) s) \<in>
           {Some (Errorf ''context cancelled during retry: %w'' [ArgErr e]),
            Some (Errorf ''context cancelled during retry wait: %w'' [ArgErr e])}"
proof -
  obtain e1 where e1: "fst (fn s) = Some e1" using assms(2) by auto
  show ?thesis
    unfolding RetryWithContext_log_def
    apply (subst retry_loop.simps)
    using assms(1,3)
    by (auto simp: e1 Let_def cancel_ctx_def max_def split: if_splits)
qed

theorem cancelled_before_first_wait_witness:
  "fst (RetryWithContext_log no_inexact (cancel_ctx (Some (3 * Second div 2)) Canceled False)
          always_fail (Some DefaultRetryOptions) \<lparr>time_now = 0\<rparr>) \<in>
           {Some (Errorf ''context cancelled during retry: %w'' [ArgErr Canceled]),
            Some (Errorf ''context cancelled during retry wait: %w'' [ArgErr Canceled])}"
  using cancelled_before_first_wait[where opts = DefaultRetryOptions and fn = always_fail
      and c = "3 * Second div 2" and s = "\<lparr>time_now = 0\<rparr>" and e = Canceled
      and tie = False and fx = no_inexact]
  by (simp add: DefaultRetryOptions_def always_fail_def Second_def)

text \<open>
  C6 as stated fails when no retry is allowed: with \<open>MaxRetries = 0\<close> and a context
  cancelled from the start, the single attempt fails and the max-retries error is
  returned, since the attempt budget is tested before the context.
\<close>

theorem cancelled_without_retries_counterexample:
  "fst (RetryWithContext_log no_inexact (cancel_ctx (Some 0) Canceled False) always_fail
       (Some (WithMaxRetries DefaultRetryOptions 0)) \<lparr>time_now = 0\<rparr>) =
     Some (Errorf ''max retries reached (%d): %w'' [ArgInt 0, ArgErr (ErrorNew ''exit status 1'')])"
  by (simp add: RetryWithContext_log_def retry_loop.simps WithMaxRetries_def
        DefaultRetryOptions_def always_fail_def Let_def)

section \<open>Properties of the rate limiter\<close>

text \<open>
  C7.  A limiter built enabled, without a Redis client, with \<open>requestsMax = 3\<close> and a
  window of 60 seconds: four successive \<open>Allow\<close> calls for one identifier, the last
  three at most 60 seconds after the first, return true, true, true, false, each with
  a nil error.
\<close>

theorem in_memory_three_then_deny:
  assumes "rl0 = NewRateLimiter True 3 60 ul None lgr"
    and "Allow rl0 ident t1 b0 = (r1, rl1, b1)"
    and "Allow rl1 ident t2 b1 = (r2, rl2, b2)"
    and "Allow rl2 ident t3 b2 = (r3, rl3, b3)"
    and "Allow rl3 ident t4 b3 = (r4, rl4, b4)"
    and "t2 - t1 \<le> 60 * Second" and "t3 - t1 \<le> 60 * Second" and "t4 - t1 \<le> 60 * Second"
  shows "[r1, r2, r3, r4] = [(True, None), (True, None), (True, None), (False, None)]"
  using assms
  by (auto simp: NewRateLimiter_def int64_def Second_def Allow_def allowMemory_def Let_def log_to_def)

theorem in_memory_three_then_deny_witness:
  "let rl0 = NewRateLimiter True 3 60 True None [] :: unit RateLimiter;
       a1 = Allow rl0 ''42'' 0 ();
       a2 = Allow (fst (snd a1)) ''42'' (10 * Second) ();
       a3 = Allow (fst (snd a2)) ''42'' (20 * Second) ();
       a4 = Allow (fst (snd a3)) ''42'' (60 * Second) ()
   in [fst a1, fst a2, fst a3, fst a4] = [(True, None), (True, None), (True, None), (False, None)]"
proof -
  let ?rl0 = "NewRateLimiter True 3 60 True None [] :: unit RateLimiter"
  let ?a1 = "Allow ?rl0 ''42'' 0 ()"
  let ?a2 = "Allow (fst (snd ?a1)) ''42'' (10 * Second) ()"
  let ?a3 = "Allow (fst (snd ?a2)) ''42'' (20 * Second) ()"
  let ?a4 = "Allow (fst (snd ?a3)) ''42'' (60 * Second) ()"
  have "[fst ?a1, fst ?a2, fst ?a3, fst ?a4] =
        [(True, None), (True, None), (True, None), (False, None)]"
    by (rule in_memory_three_then_deny[where ?rl0.0 = ?rl0 and ul = True and lgr = "[]" and ident = "''42''"
          and ?t1.0 = 0 and ?t2.0 = "10 * Second" and ?t3.0 = "20 * Second"
          and ?t4.0 = "60 * Second" and ?b0.0 = "()" and ?b1.0 = "()" and ?b2.0 = "()"
          and ?b3.0 = "()" and ?b4.0 = "()" and ?rl1.0 = "fst (snd ?a1)"
          and ?rl2.0 = "fst (snd ?a2)" and ?rl3.0 = "fst (snd ?a3)"
          and ?rl4.0 = "fst (snd ?a4)"])
       (simp_all add: prod_eq_iff Second_def)
  then show ?thesis by (simp only: Let_def)
qed

lemma allowRedis_steps:
  assumes "ZRemRangeByScore client (rate_limit_key ident') ''0''
             (Sprintf_d (unixNano div Second - Seconds_int64 (timeWindow rl))) b = (e1, b1)"
    and "ZCard client (rate_limit_key ident') b1 = ((n, e2), b2)"
    and "ZAdd client (rate_limit_key ident') (unixNano div Second)
           (Sprintf_d (unixNano div Second)) b2 = (e3, b3)"
    and "Expire client (rate_limit_key ident') (timeWindow rl) b3 = (e4, b4)"
  shows "allowRedis rl client ident' unixNano b =
           (case e1 of Some err \<Rightarrow> ((True, e1),
                 log_to rl LevelError ''Failed to remove old rate limit counts: %v'' e1, b1)
            | None \<Rightarrow>
           (case e2 of Some err \<Rightarrow> ((True, e2),
                 log_to rl LevelError ''Failed to count rate limit requests: %v'' e2, b2)
            | None \<Rightarrow>
           if requestsMax rl \<le> n
           then ((False, None),
                 log_to rl LevelWarn ''Rate limit exceeded for %s: %d requests in %v'' None, b2)
           else
           (case e3 of Some err \<Rightarrow> ((True, e3),
                 log_to rl LevelError ''Failed to add rate limit request: %v'' e3, b3)
            | None \<Rightarrow>
           (case e4 of Some err \<Rightarrow> ((True, None),
                 log_to rl LevelError ''Failed to set rate limit expiration: %v'' e4, b4)
            | None \<Rightarrow> ((True, None), rl, b4)))))"
  by (cases e1; cases e2; cases e3; cases e4) (simp_all add: allowRedis_def Let_def assms)

text \<open>
  C8 (amended).  In distributed mode \<open>Allow\<close> returns false only when both
  \<^verbatim>\<open>ZREMRANGEBYSCORE\<close> and \<^verbatim>\<open>ZCARD\<close> succeeded and the count has reached \<open>requestsMax\<close>.
  When \<^verbatim>\<open>ZREMRANGEBYSCORE\<close>, \<^verbatim>\<open>ZCARD\<close> or \<^verbatim>\<open>ZADD\<close> fails it returns true together with
  that error; when only \<^verbatim>\<open>EXPIRE\<close> fails it returns true with a nil error, and the
  failure is written to the log.
\<close>

theorem redis_fail_open:
  assumes "enabled rl" and "redisClient rl = Some client"
    and "key = rate_limit_key (if \<not> userLimit rl then ''global'' else ident)"
    and "now = unixNano div Second"
    and "ZRemRangeByScore client key ''0'' (Sprintf_d (now - Seconds_int64 (timeWindow rl))) b
           = (e1, b1)"
    and "ZCard client key b1 = ((n, e2), b2)"
    and "ZAdd client key now (Sprintf_d now) b2 = (e3, b3)"
    and "Expire client key (timeWindow rl) b3 = (e4, b4)"
  shows "fst (Allow rl ident unixNano b) =
           (if e1 \<noteq> None then (True, e1)
            else if e2 \<noteq> None then (True, e2)
            else if requestsMax rl \<le> n then (False, None)
            else if e3 \<noteq> None then (True, e3)
            else (True, None)) \<and>
         (e1 = None \<and> e2 = None \<and> n < requestsMax rl \<and> e3 = None \<and> e4 \<noteq> None \<longrightarrow>
           logger (fst (snd (Allow rl ident unixNano b))) =
             logger rl @ [(LevelError, ''Failed to set rate limit expiration: %v'', e4)])"
proof -
  let ?i = "if \<not> userLimit rl then ''global'' else ident"
  have A: "Allow rl ident unixNano b = allowRedis rl client ?i unixNano b"
    unfolding Allow_def Let_def by (simp only: assms(1,2) not_True_eq_False if_False option.case)
  show ?thesis
    unfolding A allowRedis_steps[OF assms(5-8)[unfolded assms(3,4)]]
    by (simp add: log_to_def split: option.split)
qed

text \<open>
  C8 as stated fails for \<^verbatim>\<open>EXPIRE\<close>: its failure is logged and \<open>Allow\<close> returns a nil
  error.
\<close>

theorem expire_failure_counterexample:
  "fst (Allow (NewRateLimiter True 3 60 True (Some flaky_expire) []) ''42'' 0 ()) = (True, None)"
  by (simp add: Allow_def allowRedis_def NewRateLimiter_def int64_def Second_def flaky_expire_def Let_def)

theorem redis_fail_open_witness:
  "fst (Allow (NewRateLimiter True 3 60 True (Some flaky_expire) []) ''42'' 0 ()) = (True, None) \<and>
   logger (fst (snd (Allow (NewRateLimiter True 3 60 True (Some flaky_expire) []) ''42'' 0 ()))) =
     [(LevelError, ''Failed to set rate limit expiration: %v'', Some (ErrorNew ''i/o timeout''))]"
  using redis_fail_open[where rl = "NewRateLimiter True 3 60 True (Some flaky_expire) []"
      and client = flaky_expire and ident = "''42''" and unixNano = 0 and b = "()"
      and ?e1.0 = None and ?e2.0 = None and ?e3.0 = None and ?e4.0 = "Some (ErrorNew ''i/o timeout'')"
      and n = 0 and ?b1.0 = "()" and ?b2.0 = "()" and ?b3.0 = "()" and ?b4.0 = "()", OF _ _ refl refl]
  by (simp add: NewRateLimiter_def int64_def Second_def flaky_expire_def)

section \<open>Properties of the retention sweep\<close>

lemma cleanup_entries_removed:
  "removed (cleanup_entries dir cutoff entries sw) =
     removed sw @ map (\<lambda>e. filepath_Join dir (Name e)) (filter (removable cutoff) entries)"
  by (induction entries arbitrary: sw)
     (auto simp: removable_def Let_def split: sum.splits option.splits prod.splits)

lemma cleanup_entries_errors:
  "cleanupErrors (cleanup_entries dir cutoff entries sw) =
     cleanupErrors sw @ concat (map (entry_errors dir cutoff) entries)"
  by (induction entries arbitrary: sw)
     (auto simp: entry_errors_def Let_def split: sum.splits option.splits prod.splits)

lemma filepath_Join_inject: "filepath_Join a b = filepath_Join a c \<Longrightarrow> b = c"
  by (auto simp: filepath_Join_def split: if_splits)

lemma CleanupDownloads_removed:
  "snd (CleanupDownloads dir (Inr entries) now maxAge) =
     map (\<lambda>e. filepath_Join dir (Name e)) (filter (removable (now - maxAge)) entries)"
  by (simp add: CleanupDownloads_def Let_def cleanup_entries_removed)

lemma CleanupDownloads_errors:
  "fst (CleanupDownloads dir (Inr entries) now maxAge) =
     (let errs = concat (map (entry_errors dir (now - maxAge)) entries)
      in if errs = [] then None
         else Some (Errorf ''encountered %d errors during cleanup: %v''
                [ArgInt (int (length errs)), ArgErr (Join errs)]))"
  by (simp add: CleanupDownloads_def Let_def cleanup_entries_errors)

lemma not_removed:
  assumes "distinct (map Name entries)" and "e \<in> set entries" and "\<not> removable (now - maxAge) e"
  shows "filepath_Join dir (Name e) \<notin> set (snd (CleanupDownloads dir (Inr entries) now maxAge))"
proof
  assume "filepath_Join dir (Name e) \<in> set (snd (CleanupDownloads dir (Inr entries) now maxAge))"
  then obtain e' where e': "e' \<in> set entries" "removable (now - maxAge) e'"
    and "filepath_Join dir (Name e') = filepath_Join dir (Name e)"
    by (auto simp: CleanupDownloads_removed)
  then have "Name e' = Name e" by (auto dest: filepath_Join_inject)
  with assms(1,2) e'(1) have "e' = e"
    by (meson distinct_map inj_onD)
  with e'(2) assms(3) show False by simp
qed

text \<open>
  C9 (amended).  A sweep with maximum age one hour over two run directories modified
  10 minutes and 2 hours ago never removes the first, and removes the second exactly
  when its emptiness check reports it empty without error and \<^verbatim>\<open>os.RemoveAll\<close>
  succeeds.  In any sweep over entries with distinct names: an entry whose emptiness
  check returns an error is not removed; when the entry is a directory older than the
  cutoff, that error is among the errors the sweep returns; the sweep goes on, removing
  every entry that qualifies; and an entry that the check reports as non-empty is not
  removed.
\<close>

theorem sweep_removes_old_empty_directories:
  assumes "IsDir d10" and "IsDir d2h"
    and "Info d10 = Inr (now - 10 * Minute)" and "Info d2h = Inr (now - 2 * Hour)"
    and "distinct (map Name entries)" and "e \<in> set entries"
  shows "snd (CleanupDownloads dir (Inr [d10, d2h]) now (1 * Hour)) =
           (if isDirEmpty d2h = (True, None) \<and> RemoveAll d2h = None
            then [filepath_Join dir (Name d2h)] else []) \<and>
         (snd (isDirEmpty e) \<noteq> None \<longrightarrow>
            filepath_Join dir (Name e) \<notin>
              set (snd (CleanupDownloads dir (Inr entries) now' maxAge))) \<and>
         (IsDir e \<and> Info e = Inr t \<and> t < now' - maxAge \<and> snd (isDirEmpty e) = Some err \<longrightarrow>
            (\<exists>errs. fst (CleanupDownloads dir (Inr entries) now' maxAge) =
                Some (Errorf ''encountered %d errors during cleanup: %v''
                  [ArgInt (int (length errs)), ArgErr (Join errs)]) \<and>
              Errorf ''failed to check if %s is empty: %w''
                [ArgStr (filepath_Join dir (Name e)), ArgErr err]
                \<in> set errs)) \<and>
         snd (CleanupDownloads dir (Inr entries) now' maxAge) =
           map (\<lambda>e. filepath_Join dir (Name e)) (filter (removable (now' - maxAge)) entries) \<and>
         (isDirEmpty e = (False, None) \<longrightarrow>
            filepath_Join dir (Name e) \<notin>
              set (snd (CleanupDownloads dir (Inr entries) now' maxAge)))"
proof (intro conjI impI)
  show "snd (CleanupDownloads dir (Inr [d10, d2h]) now (1 * Hour)) =
           (if isDirEmpty d2h = (True, None) \<and> RemoveAll d2h = None
            then [filepath_Join dir (Name d2h)] else [])"
    using assms(1-4)
    by (simp add: CleanupDownloads_removed removable_def Hour_def Minute_def Second_def)
next
  assume "snd (isDirEmpty e) \<noteq> None"
  then have "\<not> removable (now' - maxAge) e" by (auto simp: removable_def)
  with assms(5,6) show "filepath_Join dir (Name e) \<notin>
      set (snd (CleanupDownloads dir (Inr entries) now' maxAge))"
    by (rule not_removed)
next
  assume a: "IsDir e \<and> Info e = Inr t \<and> t < now' - maxAge \<and> snd (isDirEmpty e) = Some err"
  let ?errs = "concat (map (entry_errors dir (now' - maxAge)) entries)"
  let ?x = "Errorf ''failed to check if %s is empty: %w''
                [ArgStr (filepath_Join dir (Name e)), ArgErr err]"
  from a have "?x \<in> set (entry_errors dir (now' - maxAge) e)"
    by (auto simp: entry_errors_def Let_def)
  with assms(6) have in_errs: "?x \<in> set ?errs" by auto
  have "?errs \<noteq> []"
  proof
    assume "?errs = []"
    with in_errs show False by (simp only: list.set empty_iff)
  qed
  then have "fst (CleanupDownloads dir (Inr entries) now' maxAge) =
      Some (Errorf ''encountered %d errors during cleanup: %v''
        [ArgInt (int (length ?errs)), ArgErr (Join ?errs)])"
    by (simp add: CleanupDownloads_errors Let_def)
  with in_errs show "\<exists>errs. fst (CleanupDownloads dir (Inr entries) now' maxAge) =
                Some (Errorf ''encountered %d errors during cleanup: %v''
                  [ArgInt (int (length errs)), ArgErr (Join errs)]) \<and> ?x \<in> set errs"
    by blast
next
  show "snd (CleanupDownloads dir (Inr entries) now' maxAge) =
      map (\<lambda>e. filepath_Join dir (Name e)) (filter (removable (now' - maxAge)) entries)"
    by (rule CleanupDownloads_removed)
next
  assume "isDirEmpty e = (False, None)"
  then have "\<not> removable (now' - maxAge) e" by (auto simp: removable_def)
  with assms(5,6) show "filepath_Join dir (Name e) \<notin>
      set (snd (CleanupDownloads dir (Inr entries) now' maxAge))"
    by (rule not_removed)
qed

text \<open>
  C9 as stated fails when the 2-hour-old directory holds files: the emptiness check
  answers ``not empty'' and the directory stays.
\<close>

theorem old_nonempty_directory_counterexample:
  "filepath_Join ''downloads'' ''1700000000000000002'' \<notin>
     set (snd (CleanupDownloads ''downloads''
       (Inr [run_dir ''1700000000000000001'' (3 * Hour - 10 * Minute) None None,
             run_dir ''1700000000000000002'' (3 * Hour - 2 * Hour) None None])
       (3 * Hour) (1 * Hour)))"
  by (simp add: CleanupDownloads_def run_dir_def isDirEmpty_def Let_def Hour_def Minute_def
        Second_def)

theorem sweep_removes_old_empty_directories_witness:
  "snd (CleanupDownloads ''downloads''
       (Inr [run_dir ''1700000000000000001'' (3 * Hour - 10 * Minute) None (Some EOF),
             run_dir ''1700000000000000002'' (3 * Hour - 2 * Hour) None (Some EOF)])
       (3 * Hour) (1 * Hour)) = [''downloads/1700000000000000002''] \<and>
   snd (CleanupDownloads ''downloads''
       (Inr [run_dir ''1700000000000000001'' (3 * Hour - 10 * Minute) None (Some EOF),
             run_dir ''1700000000000000002'' (3 * Hour - 2 * Hour) None (Some EOF),
             run_dir ''1700000000000000003'' (3 * Hour - 2 * Hour)
               (Some (ErrorNew ''permission denied'')) None])
       (3 * Hour) (1 * Hour)) = [''downloads/1700000000000000002''] \<and>
   fst (CleanupDownloads ''downloads''
       (Inr [run_dir ''1700000000000000001'' (3 * Hour - 10 * Minute) None (Some EOF),
             run_dir ''1700000000000000002'' (3 * Hour - 2 * Hour) None (Some EOF),
             run_dir ''1700000000000000003'' (3 * Hour - 2 * Hour)
               (Some (ErrorNew ''permission denied'')) None])
       (3 * Hour) (1 * Hour)) =
     Some (Errorf ''encountered %d errors during cleanup: %v''
       [ArgInt 1,
        ArgErr (Join [Errorf ''failed to check if %s is empty: %w''
                        [ArgStr ''downloads/1700000000000000003'',
                         ArgErr (ErrorNew ''permission denied'')]])])"
  using sweep_removes_old_empty_directories[of
      "run_dir ''1700000000000000001'' (3 * Hour - 10 * Minute) None (Some EOF)"
      "run_dir ''1700000000000000002'' (3 * Hour - 2 * Hour) None (Some EOF)"
      "3 * Hour"
      "[run_dir ''1700000000000000001'' (3 * Hour - 10 * Minute) None (Some EOF),
        run_dir ''1700000000000000002'' (3 * Hour - 2 * Hour) None (Some EOF),
        run_dir ''1700000000000000003'' (3 * Hour - 2 * Hour)
          (Some (ErrorNew ''permission denied'')) None]"
      "run_dir ''1700000000000000003'' (3 * Hour - 2 * Hour)
          (Some (ErrorNew ''permission denied'')) None"
      "''downloads''" "3 * Hour" "1 * Hour" "3 * Hour - 2 * Hour" "ErrorNew ''permission denied''"]
  by (simp add: CleanupDownloads_def run_dir_def isDirEmpty_def Let_def Hour_def Minute_def
        Second_def filepath_Join_def removable_def)

section \<open>Properties of the download pipeline\<close>

lemma retry_loop_fails:
  assumes "\<forall>s. fst (fn s) \<noteq> None"
  shows "n = nat (MaxRetries options - attempt) \<Longrightarrow> attempt \<le> MaxRetries options \<Longrightarrow>
         fst (retry_loop fx ctx fn options attempt wait err lg s) \<noteq> None"
proof (induction n arbitrary: attempt wait err lg s)
  case 0
  then have eq: "attempt = MaxRetries options" by simp
  obtain e where e: "fst (fn s) = Some e" using assms by auto
  show ?case by (subst retry_loop.simps) (simp add: eq e Let_def)
next
  case (Suc n)
  then have lt: "attempt < MaxRetries options"
    and n: "n = nat (MaxRetries options - (attempt + 1))" by auto
  obtain e where e: "fst (fn s) = Some e" using assms by auto
  have IH: "fst (retry_loop fx ctx fn options (attempt + 1) wait' err' lg' s') \<noteq> None"
    for wait' err' lg' s'
    using Suc.IH[OF n] lt by simp
  show ?case
    using lt IH by (subst retry_loop.simps) (auto simp: e Let_def)
qed

lemma RetryWithContext_fails:
  assumes "\<forall>s. fst (fn s) \<noteq> None" and "0 \<le> MaxRetries opts"
  shows "fst (RetryWithContext fx ctx fn (Some opts) s) \<noteq> None"
  using retry_loop_fails[OF assms(1) refl, where attempt = 0 and options = opts and fx = fx
      and ctx = ctx and wait = "InitialWait opts" and err = None and lg = no_log and s = s]
    assms(2)
  by (simp add: RetryWithContext_def RetryWithContext_log_def Let_def)

lemma RetryWithContext_first_success:
  assumes "fn s = (None, s')" and "0 \<le> MaxRetries opts"
  shows "RetryWithContext fx ctx fn (Some opts) s = (None, s')"
  using assms(2)
  by (simp add: RetryWithContext_def RetryWithContext_log_def
        retry_loop.simps[where attempt = 0] assms(1) Let_def)

lemma artifacts_ok_zero: "artifacts_ok p zero_DownloadResult"
  by (simp add: artifacts_ok_def zero_DownloadResult_def)

lemma Download_thumbnail_ok:
  "artifacts_ok p r \<Longrightarrow> artifacts_ok p (fst (Download_thumbnail os d ctx url p r w)) \<and>
     VideoPath (fst (Download_thumbnail os d ctx url p r w)) = VideoPath r"
  by (auto simp: Download_thumbnail_def Let_def artifacts_ok_def)

lemma Download_subtitle_ok:
  "artifacts_ok p r \<Longrightarrow> artifacts_ok p (fst (Download_subtitle os d ctx url lang p r w)) \<and>
     VideoPath (fst (Download_subtitle os d ctx url lang p r w)) = VideoPath r"
  by (auto simp: Download_subtitle_def Let_def artifacts_ok_def)

lemma Download_audio_ok:
  "artifacts_ok p r \<Longrightarrow> artifacts_ok p (fst (Download_audio os d ctx url p r w)) \<and>
     VideoPath (fst (Download_audio os d ctx url p r w)) = VideoPath r"
  by (auto simp: Download_audio_def Let_def artifacts_ok_def)

lemma Download_thumbnail_fallback_ok:
  "artifacts_ok p r \<Longrightarrow> artifacts_ok p (fst (Download_thumbnail_fallback os d p r w)) \<and>
     VideoPath (fst (Download_thumbnail_fallback os d p r w)) = VideoPath r"
  by (auto simp: Download_thumbnail_fallback_def Let_def artifacts_ok_def)

lemma artifacts_ok_updates:
  "artifacts_ok p r \<Longrightarrow> artifacts_ok p (r\<lparr>VideoPath := v\<rparr>)"
  "artifacts_ok p r \<Longrightarrow> artifacts_ok p (r\<lparr>FileSize := n\<rparr>)"
  "artifacts_ok p r \<Longrightarrow> artifacts_ok p (r\<lparr>Duration := n\<rparr>)"
  by (auto simp: artifacts_ok_def)

lemma Download_tail_ok:
  assumes "artifacts_ok p r2"
  shows "artifacts_ok p (fst (Download_thumbnail_fallback os d p
            ((fst (Download_audio os d ctx url p
                (fst (Download_subtitle os d ctx url lang p r2 w2)) w3))\<lparr>Duration := n\<rparr>) w4)) \<and>
         VideoPath (fst (Download_thumbnail_fallback os d p
            ((fst (Download_audio os d ctx url p
                (fst (Download_subtitle os d ctx url lang p r2 w2)) w3))\<lparr>Duration := n\<rparr>) w4))
           = VideoPath r2"
proof -
  let ?r3 = "fst (Download_subtitle os d ctx url lang p r2 w2)"
  have r3: "artifacts_ok p ?r3" "VideoPath ?r3 = VideoPath r2"
    using Download_subtitle_ok[OF assms, of os d ctx url lang w2] by simp_all
  let ?r4 = "fst (Download_audio os d ctx url p ?r3 w3)"
  have r4: "artifacts_ok p ?r4" "VideoPath ?r4 = VideoPath r2"
    using Download_audio_ok[OF r3(1), of os d ctx url w3] r3(2) by simp_all
  let ?r5 = "?r4\<lparr>Duration := n\<rparr>"
  have r5: "artifacts_ok p ?r5" "VideoPath ?r5 = VideoPath r2"
    using r4 by (simp_all add: artifacts_ok_updates)
  show ?thesis
    using Download_thumbnail_fallback_ok[OF r5(1), of os d w4] r5(2) by simp
qed

lemma Download_audio_frame:
  "HasSubtitle (fst (Download_audio os d ctx url p r w)) = HasSubtitle r \<and>
   SubtitlePath (fst (Download_audio os d ctx url p r w)) = SubtitlePath r \<and>
   VideoWithSubPath (fst (Download_audio os d ctx url p r w)) = VideoWithSubPath r"
  by (simp add: Download_audio_def Let_def)

lemma Download_thumbnail_fallback_frame:
  "HasSubtitle (fst (Download_thumbnail_fallback os d p r w)) = HasSubtitle r \<and>
   SubtitlePath (fst (Download_thumbnail_fallback os d p r w)) = SubtitlePath r \<and>
   VideoWithSubPath (fst (Download_thumbnail_fallback os d p r w)) = VideoWithSubPath r"
  by (simp add: Download_thumbnail_fallback_def Let_def)

lemma Download_thumbnail_frame:
  "HasSubtitle (fst (Download_thumbnail os d ctx url p r w)) = HasSubtitle r \<and>
   SubtitlePath (fst (Download_thumbnail os d ctx url p r w)) = SubtitlePath r \<and>
   VideoWithSubPath (fst (Download_thumbnail os d ctx url p r w)) = VideoWithSubPath r"
  by (simp add: Download_thumbnail_def Let_def)

lemma filepath_Join_nonempty: "b \<noteq> [] \<Longrightarrow> filepath_Join a b \<noteq> []"
  by (simp add: filepath_Join_def)


lemma Download_thumbnail_eq:
  assumes "RetryWithContext (float64_inexact os) ctx (downloadThumbnail os d url p)
             (Some (retryOpts d)) w = (e, w1)"
  shows "Download_thumbnail os d ctx url p r w =
           (if e = None \<and> fileExists os (filepath_Join p ''thumbnail.png'') w1
            then r\<lparr>ThumbnailPath := filepath_Join p ''thumbnail.png''\<rparr> else r, w1)"
  by (simp add: Download_thumbnail_def Let_def assms)

lemma Download_subtitle_eq:
  assumes "RetryWithContext (float64_inexact os) (with_var ctx) (subtitle_fn os d url lang p)
             (Some (retryOpts d)) ([], w) = (subErr, sp, w3)"
    and "RetryWithContext (float64_inexact os) ctx (embedSubtitle os d (VideoPath r) sp p)
             (Some (retryOpts d)) w3 = (embedErr, w4)"
  shows "Download_subtitle os d ctx url lang p r w =
           (if subErr = None \<and> sp \<noteq> [] then
              (if embedErr = None
               then r\<lparr>SubtitlePath := sp, HasSubtitle := True,
                       VideoWithSubPath := filepath_Join p ''video_final.mp4''\<rparr>
               else r\<lparr>SubtitlePath := sp, HasSubtitle := True\<rparr>, w4)
            else (r, w3))"
  by (simp add: Download_subtitle_def Let_def assms)

lemma Download_audio_eq:
  assumes "RetryWithContext (float64_inexact os) ctx (extractAudio os d url p)
             (Some (retryOpts d)) w = (e, w1)"
  shows "Download_audio os d ctx url p r w =
           (if e = None then r\<lparr>AudioPath := filepath_Join p ''audio.mp3''\<rparr> else r, w1)"
  by (simp add: Download_audio_def Let_def assms)

lemma Download_thumbnail_fallback_eq:
  assumes "extractThumbnail os d (VideoPath r) p w = (e, w1)"
  shows "Download_thumbnail_fallback os d p r w =
           (if ThumbnailPath r = [] \<and> VideoPath r \<noteq> [] then
              (if e = None \<and> fileExists os (filepath_Join p ''thumbnail.png'') w1
               then r\<lparr>ThumbnailPath := filepath_Join p ''thumbnail.png''\<rparr> else r, w1)
            else (r, w))"
  by (simp add: Download_thumbnail_fallback_def Let_def assms)

lemma getVideoDuration_eq:
  assumes "CombinedOutput os (dependencyPath d ''ffprobe'')
             [''-v'', ''error'', ''-show_entries'', ''format=duration'',
              ''-of'', ''default=noprint_wrappers=1:nokey=1'', v] w = ((out, e), w1)"
  shows "getVideoDuration os d v w =
           (if dependencyPath d ''ffprobe'' = [] \<or> e \<noteq> None then 0
            else (case Sscanf_duration os out of Inl err \<Rightarrow> 0 | Inr n \<Rightarrow> n),
            if dependencyPath d ''ffprobe'' = [] then w else w1)"
  by (auto simp add: getVideoDuration_def Let_def assms split: sum.split)

text \<open>
  C1 (amended).  Name the outcome of every stage of a run: the creation of the run
  directory, the retried thumbnail download, the retried primary-video stage, the
  retried subtitle download and the path it found, the retried embedding, the retried
  audio extraction, the duration probe and the thumbnail extraction.  \<open>Download\<close>
  returns an error exactly when the run directory cannot be created or the
  primary-video stage returns an error, and then no result.  Otherwise it returns a
  result with a nil error in which the video path is the primary video and every
  other field is decided by the outcome of its own stage alone: the file size is that of
  the video or zero; the subtitle path and \<open>HasSubtitle\<close> are set exactly when the
  subtitle download succeeded with a path; the embedded-video path exactly when, besides,
  the embedding succeeded; the audio path exactly when the audio extraction succeeded;
  the duration is the parsed output of the probe, or zero when the probe is missing,
  fails or prints something else; the thumbnail path is set exactly when the thumbnail
  download succeeded and left its file, or else the extraction from the video did.
\<close>

theorem Download_error_iff:
  assumes "downloadPath = filepath_Join (downloadDir d) (Sprintf_d (UnixNano os w))"
    and "video = filepath_Join downloadPath ''video_base.mp4''"
    and "thumb = filepath_Join downloadPath ''thumbnail.png''"
    and "MkdirAll os downloadPath w = (mkdirErr, w0)"
    and "RetryWithContext (float64_inexact os) ctx (downloadThumbnail os d url downloadPath)
           (Some (retryOpts d)) w0 = (thumbErr, w1)"
    and "RetryWithContext (float64_inexact os) ctx (downloadPrimaryVideo os d url downloadPath)
           (Some (retryOpts d)) w1 = (primaryErr, w2)"
    and "RetryWithContext (float64_inexact os) (with_var ctx)
           (subtitle_fn os d url captionLang downloadPath)
           (Some (retryOpts d)) ([], w2) = (subErr, sp, w3)"
    and "RetryWithContext (float64_inexact os) ctx (embedSubtitle os d video sp downloadPath)
           (Some (retryOpts d)) w3 = (embedErr, w4)"
    and "RetryWithContext (float64_inexact os) ctx (extractAudio os d url downloadPath)
           (Some (retryOpts d)) (if subErr = None \<and> sp \<noteq> [] then w4 else w3) = (audioErr, w6)"
    and "CombinedOutput os (dependencyPath d ''ffprobe'')
           [''-v'', ''error'', ''-show_entries'', ''format=duration'',
            ''-of'', ''default=noprint_wrappers=1:nokey=1'', video] w6 = ((probeOut, probeErr), w7)"
    and "extractThumbnail os d video downloadPath
           (if dependencyPath d ''ffprobe'' = [] then w6 else w7) = (fallbackErr, w8)"
  shows "(snd (fst (Download os d ctx url captionLang w)) \<noteq> None \<longleftrightarrow>
            mkdirErr \<noteq> None \<or> primaryErr \<noteq> None) \<and>
         fst (Download os d ctx url captionLang w) =
           (case mkdirErr of
              Some e \<Rightarrow>
                (None, Some (Errorf ''failed to create download directory: %w'' [ArgErr e]))
            | None \<Rightarrow>
                (case primaryErr of
                   Some e \<Rightarrow>
                     (None, Some (Errorf ''failed to download primary video after %d retries: %w''
                                    [ArgInt (MaxRetries (retryOpts d)), ArgErr e]))
                 | None \<Rightarrow>
                     (Some \<lparr>VideoPath = video,
                            VideoWithSubPath =
                              (if subErr = None \<and> sp \<noteq> [] \<and> embedErr = None
                               then filepath_Join downloadPath ''video_final.mp4'' else []),
                            AudioPath =
                              (if audioErr = None
                               then filepath_Join downloadPath ''audio.mp3'' else []),
                            SubtitlePath = (if subErr = None then sp else []),
                            HasSubtitle = (subErr = None \<and> sp \<noteq> []),
                            FileSize = (case Stat os video w2 of Inl err \<Rightarrow> 0 | Inr n \<Rightarrow> n),
                            Duration =
                              (if dependencyPath d ''ffprobe'' = [] \<or> probeErr \<noteq> None then 0
                               else (case Sscanf_duration os probeOut of
                                       Inl err \<Rightarrow> 0 | Inr n \<Rightarrow> n)),
                            Error = None,
                            ThumbnailPath =
                              (if thumbErr = None \<and> fileExists os thumb w1 then thumb
                               else if fallbackErr = None \<and> fileExists os thumb w8 then thumb
                               else [])\<rparr>,
                      None)))"
proof (cases mkdirErr)
  case (Some e)
  then show ?thesis unfolding Download_def Let_def assms(1)[symmetric]
    by (simp add: assms(4))
next
  case None
  note mk = None
  define r1 where "r1 = (if thumbErr = None \<and> fileExists os thumb w1
                         then zero_DownloadResult\<lparr>ThumbnailPath := thumb\<rparr>
                         else zero_DownloadResult)"
  have T: "Download_thumbnail os d ctx url downloadPath zero_DownloadResult w0 = (r1, w1)"
    unfolding r1_def assms(3) by (rule Download_thumbnail_eq) (rule assms(5))
  have e: "fst (MkdirAll os downloadPath w) = None" "snd (MkdirAll os downloadPath w) = w0"
    "fst (Download_thumbnail os d ctx url downloadPath zero_DownloadResult w0) = r1"
    "snd (Download_thumbnail os d ctx url downloadPath zero_DownloadResult w0) = w1"
    "fst (RetryWithContext (float64_inexact os) ctx (downloadPrimaryVideo os d url downloadPath)
         (Some (retryOpts d)) w1) = primaryErr"
    "snd (RetryWithContext (float64_inexact os) ctx (downloadPrimaryVideo os d url downloadPath)
         (Some (retryOpts d)) w1) = w2"
    by (simp_all add: assms(4,6) mk T)
  show ?thesis
  proof (cases primaryErr)
    case (Some e')
    then show ?thesis using mk unfolding Download_def Let_def assms(1)[symmetric] e
      by simp
  next
    case None
    define r2 where "r2 = (case Stat os video w2 of
                             Inl err \<Rightarrow> r1\<lparr>VideoPath := video\<rparr>
                           | Inr fileSize \<Rightarrow> r1\<lparr>VideoPath := video, FileSize := fileSize\<rparr>)"
    have v2: "VideoPath r2 = video" by (simp add: r2_def split: sum.split)
    define r3 where "r3 = (if subErr = None \<and> sp \<noteq> [] then
              (if embedErr = None
               then r2\<lparr>SubtitlePath := sp, HasSubtitle := True,
                       VideoWithSubPath := filepath_Join downloadPath ''video_final.mp4''\<rparr>
               else r2\<lparr>SubtitlePath := sp, HasSubtitle := True\<rparr>)
            else r2)"
    define w5 where "w5 = (if subErr = None \<and> sp \<noteq> [] then w4 else w3)"
    have S: "Download_subtitle os d ctx url captionLang downloadPath r2 w2 = (r3, w5)"
      using Download_subtitle_eq[where r = r2, unfolded v2, OF assms(7) assms(8)]
      by (simp add: r3_def w5_def)
    define r4 where "r4 = (if audioErr = None
                           then r3\<lparr>AudioPath := filepath_Join downloadPath ''audio.mp3''\<rparr>
                           else r3)"
    have A: "Download_audio os d ctx url downloadPath r3 w5 = (r4, w6)"
      unfolding r4_def w5_def by (rule Download_audio_eq) (rule assms(9))
    have v4: "VideoPath r4 = video" by (simp add: r4_def r3_def v2)
    define dur where "dur = (if dependencyPath d ''ffprobe'' = [] \<or> probeErr \<noteq> None then 0
            else (case Sscanf_duration os probeOut of Inl err \<Rightarrow> 0 | Inr n \<Rightarrow> n))"
    define w7' where "w7' = (if dependencyPath d ''ffprobe'' = [] then w6 else w7)"
    have G: "getVideoDuration os d video w6 = (dur, w7')"
      unfolding dur_def w7'_def by (rule getVideoDuration_eq) (rule assms(10))
    define r5 where "r5 = r4\<lparr>Duration := dur\<rparr>"
    have v5: "VideoPath r5 = video" by (simp add: r5_def v4)
    have vne: "video \<noteq> []" unfolding assms(2) by (rule filepath_Join_nonempty) simp
    define r6 where "r6 = (if ThumbnailPath r5 = [] then
              (if fallbackErr = None \<and> fileExists os thumb w8
               then r5\<lparr>ThumbnailPath := thumb\<rparr> else r5)
            else r5)"
    define w9 where "w9 = (if ThumbnailPath r5 = [] then w8 else w7')"
    have F: "Download_thumbnail_fallback os d downloadPath r5 w7' = (r6, w9)"
      using Download_thumbnail_fallback_eq[where r = r5, unfolded v5,
          OF assms(11)[folded w7'_def]] vne
      by (simp add: r6_def w9_def assms(3))
    have e2: "fst (Download_subtitle os d ctx url captionLang downloadPath r2 w2) = r3"
      "snd (Download_subtitle os d ctx url captionLang downloadPath r2 w2) = w5"
      "fst (Download_audio os d ctx url downloadPath r3 w5) = r4"
      "snd (Download_audio os d ctx url downloadPath r3 w5) = w6"
      "fst (getVideoDuration os d video w6) = dur"
      "snd (getVideoDuration os d video w6) = w7'"
      "fst (Download_thumbnail_fallback os d downloadPath r5 w7') = r6"
      by (simp_all add: S A G F)
    have r2': "(case Stat os (VideoPath (r1\<lparr>VideoPath := video\<rparr>)) w2 of
                  Inl err \<Rightarrow> r1\<lparr>VideoPath := video\<rparr>
                | Inr fileSize \<Rightarrow> r1\<lparr>VideoPath := video\<rparr>\<lparr>FileSize := fileSize\<rparr>) = r2"
      by (simp add: r2_def split: sum.split)
    have D: "fst (Download os d ctx url captionLang w) = (Some r6, None)"
      unfolding Download_def Let_def assms(1)[symmetric] assms(2)[symmetric] e None mk
        option.case r2' e2 v4 r5_def[symmetric]
      by (simp add: e2)
    have tne: "thumb \<noteq> []" unfolding assms(3) by (rule filepath_Join_nonempty) simp
    have R: "r6 = \<lparr>VideoPath = video,
                            VideoWithSubPath =
                              (if subErr = None \<and> sp \<noteq> [] \<and> embedErr = None
                               then filepath_Join downloadPath ''video_final.mp4'' else []),
                            AudioPath =
                              (if audioErr = None
                               then filepath_Join downloadPath ''audio.mp3'' else []),
                            SubtitlePath = (if subErr = None then sp else []),
                            HasSubtitle = (subErr = None \<and> sp \<noteq> []),
                            FileSize = (case Stat os video w2 of Inl err \<Rightarrow> 0 | Inr n \<Rightarrow> n),
                            Duration = dur,
                            Error = None,
                            ThumbnailPath =
                              (if thumbErr = None \<and> fileExists os thumb w1 then thumb
                               else if fallbackErr = None \<and> fileExists os thumb w8 then thumb
                               else [])\<rparr>"
      using tne
      by (auto simp: r6_def r5_def r4_def r3_def r2_def r1_def zero_DownloadResult_def
            split: sum.split)
    show ?thesis using mk None D R by (simp add: dur_def)
  qed
qed

theorem Download_error_iff_witness:
  "snd (fst (Download os_no_audio dl background ''https://youtu.be/x'' ''en'' ())) = None \<and>
   (\<exists>r. fst (fst (Download os_no_audio dl background ''https://youtu.be/x'' ''en'' ())) = Some r \<and>
        VideoPath r =
          filepath_Join (filepath_Join (downloadDir dl) (Sprintf_d (UnixNano os_no_audio ())))
            ''video_base.mp4'' \<and>
        AudioPath r = [])"
proof -
  let ?url = "''https://youtu.be/x''"
  let ?p = "filepath_Join (downloadDir dl) (Sprintf_d (UnixNano os_no_audio ()))"
  let ?v = "filepath_Join ?p ''video_base.mp4''"
  let ?fx = "float64_inexact os_no_audio"
  let ?T = "RetryWithContext ?fx background (downloadThumbnail os_no_audio dl ?url ?p)
              (Some (retryOpts dl)) ()"
  let ?S = "RetryWithContext ?fx (with_var background) (subtitle_fn os_no_audio dl ?url ''en'' ?p)
              (Some (retryOpts dl)) ([], ())"
  let ?E = "RetryWithContext ?fx background (embedSubtitle os_no_audio dl ?v (fst (snd ?S)) ?p)
              (Some (retryOpts dl)) ()"
  let ?A = "RetryWithContext ?fx background (extractAudio os_no_audio dl ?url ?p)
              (Some (retryOpts dl)) (if fst ?S = None \<and> fst (snd ?S) \<noteq> [] then () else ())"
  let ?F = "extractThumbnail os_no_audio dl ?v ?p
              (if dependencyPath dl ''ffprobe'' = [] then () else ())"
  have m: "0 \<le> MaxRetries (retryOpts dl)"
    by (simp add: dl_def NewVideoDownloader_def WithMaxRetries_def DefaultRetryOptions_def)
  have h4: "MkdirAll os_no_audio ?p () = (None, ())"
    by (simp add: os_no_audio_def os_ok_def)
  have h5: "?T = (fst ?T, ())" by (simp add: prod_eq_iff)
  have "downloadPrimaryVideo os_no_audio dl ?url ?p () = (None, ())"
    by (simp add: downloadPrimaryVideo_def primaryVideo_args_def dependencyPath_def dl_def
          NewVideoDownloader_def tools_def os_no_audio_def os_ok_def Let_def filepath_Join_def)
  then have h6: "RetryWithContext ?fx background (downloadPrimaryVideo os_no_audio dl ?url ?p)
          (Some (retryOpts dl)) () = (None, ())"
    using m by (rule RetryWithContext_first_success)
  have h7: "?S = (fst ?S, fst (snd ?S), ())" by (simp add: prod_eq_iff)
  have h8: "?E = (fst ?E, ())" by (simp add: prod_eq_iff)
  have h9: "?A = (fst ?A, ())" by (simp add: prod_eq_iff)
  have h10: "CombinedOutput os_no_audio (dependencyPath dl ''ffprobe'')
           [''-v'', ''error'', ''-show_entries'', ''format=duration'',
            ''-of'', ''default=noprint_wrappers=1:nokey=1'', ?v] () = (([], None), ())"
    by (simp add: os_no_audio_def os_ok_def filepath_Join_def dl_def NewVideoDownloader_def)
  have h11: "?F = (fst ?F, ())" by (simp add: prod_eq_iff)
  have "\<forall>s. fst (extractAudio os_no_audio dl ?url ?p s) \<noteq> None"
    by (simp add: extractAudio_def dependencyPath_def dl_def NewVideoDownloader_def tools_def
          os_no_audio_def os_ok_def Let_def)
  then have a: "fst ?A \<noteq> None" using m by (rule RetryWithContext_fails)
  from Download_error_iff[OF refl refl refl h4 h5 h6 h7 h8 h9 h10 h11] a
  show ?thesis by auto
qed

text \<open>
  C1 as stated fails: when the run directory cannot be created \<open>Download\<close> returns an
  error although the primary-video stage has not failed (it would succeed).
\<close>

theorem mkdir_failure_counterexample:
  "fst (Download os_read_only dl background ''https://youtu.be/x'' ''en'' ()) =
     (None, Some (Errorf ''failed to create download directory: %w''
                    [ArgErr (ErrorNew ''read-only file system'')])) \<and>
   fst (RetryWithContext (float64_inexact os_read_only) background
          (downloadPrimaryVideo os_read_only dl ''https://youtu.be/x''
             (filepath_Join (downloadDir dl) (Sprintf_d (UnixNano os_read_only ()))))
          (Some (retryOpts dl)) ()) = None"
proof -
  have "downloadPrimaryVideo os_read_only dl ''https://youtu.be/x''
          (filepath_Join (downloadDir dl) (Sprintf_d (UnixNano os_read_only ()))) () = (None, ())"
    by (simp add: downloadPrimaryVideo_def dependencyPath_def dl_def NewVideoDownloader_def
          tools_def os_read_only_def os_ok_def Let_def)
  then have "RetryWithContext (float64_inexact os_read_only) background
          (downloadPrimaryVideo os_read_only dl ''https://youtu.be/x''
             (filepath_Join (downloadDir dl) (Sprintf_d (UnixNano os_read_only ()))))
          (Some (retryOpts dl)) () = (None, ())"
    by (rule RetryWithContext_first_success)
       (simp add: dl_def NewVideoDownloader_def WithMaxRetries_def DefaultRetryOptions_def)
  moreover have "fst (Download os_read_only dl background ''https://youtu.be/x'' ''en'' ()) =
     (None, Some (Errorf ''failed to create download directory: %w''
                    [ArgErr (ErrorNew ''read-only file system'')]))"
    by (simp add: Download_def Let_def os_read_only_def os_ok_def)
  ultimately show ?thesis by simp
qed

lemma retry_loop_result:
  "n = nat (MaxRetries options + 1 - attempt) \<Longrightarrow>
   retry_loop fx ctx fn options attempt wait err lg s = (e, lg', s') \<Longrightarrow>
   \<exists>rs. invoked lg' = invoked lg @ rs \<and>
        (if rs = [] then e = err else (e = None) = (last rs = None))"
proof (induction n arbitrary: attempt wait err lg s)
  case 0
  then have "MaxRetries options < attempt" by simp
  then have "retry_loop fx ctx fn options attempt wait err lg s = (err, lg, s)"
    by (rule retry_loop_exit)
  with 0(2) have "e = err" "lg' = lg" by simp_all
  then show ?case by (intro exI[of _ "[]"]) simp
next
  case (Suc n)
  from Suc.prems(1) have n: "n = nat (MaxRetries options + 1 - (attempt + 1))"
    and le: "attempt \<le> MaxRetries options" by simp_all
  note run = Suc.prems(2)
  let ?s1 = "snd (fn s)"
  show ?case
  proof (cases "fst (fn s)")
    case None
    have "retry_loop fx ctx fn options attempt wait err lg s =
            (None, lg\<lparr>invoked := invoked lg @ [None]\<rparr>, ?s1)"
      by (subst retry_loop.simps) (simp add: le None Let_def)
    with run have "e = None" "lg' = lg\<lparr>invoked := invoked lg @ [None]\<rparr>" by simp_all
    then show ?thesis by (intro exI[of _ "[None]"]) simp
  next
    case (Some e0)
    let ?lg1 = "lg\<lparr>invoked := invoked lg @ [Some e0]\<rparr>"
    let ?lg2 = "?lg1\<lparr>waited := waited ?lg1 @ [wait]\<rparr>"
    let ?s2 = "snd (after ctx wait ?s1)"
    let ?w2 = "min (scale_wait fx wait (Multiplier options)) (MaxWait options)"
    consider (last) "attempt = MaxRetries options"
      | (closed) "attempt \<noteq> MaxRetries options" "done_closed ctx ?s1"
      | (cancelled) "attempt \<noteq> MaxRetries options" "\<not> done_closed ctx ?s1"
          "\<not> fst (after ctx wait ?s1)"
      | (again) "attempt \<noteq> MaxRetries options" "\<not> done_closed ctx ?s1"
          "fst (after ctx wait ?s1)"
      by blast
    then show ?thesis
    proof cases
      case last
      have "retry_loop fx ctx fn options attempt wait err lg s =
              (Some (Errorf ''max retries reached (%d): %w''
                       [ArgInt (MaxRetries options), ArgErr e0]), ?lg1, ?s1)"
        by (subst retry_loop.simps) (simp add: last Some Let_def)
      with run have "e \<noteq> None" "invoked lg' = invoked lg @ [Some e0]" by auto
      then show ?thesis by (intro exI[of _ "[Some e0]"]) simp
    next
      case closed
      have "retry_loop fx ctx fn options attempt wait err lg s =
              (Some (Errorf ''context cancelled during retry: %w''
                       [ArgErr (ctx_Err ctx ?s1)]), ?lg1, ?s1)"
        by (subst retry_loop.simps) (simp add: le closed Some Let_def)
      with run have "e \<noteq> None" "invoked lg' = invoked lg @ [Some e0]" by auto
      then show ?thesis by (intro exI[of _ "[Some e0]"]) simp
    next
      case cancelled
      have "retry_loop fx ctx fn options attempt wait err lg s =
              (Some (Errorf ''context cancelled during retry wait: %w''
                       [ArgErr (ctx_Err ctx ?s2)]), ?lg2, ?s2)"
        by (subst retry_loop.simps) (simp add: le cancelled Some Let_def)
      with run have "e \<noteq> None" "invoked lg' = invoked lg @ [Some e0]" by auto
      then show ?thesis by (intro exI[of _ "[Some e0]"]) simp
    next
      case again
      have "retry_loop fx ctx fn options attempt wait err lg s =
                 retry_loop fx ctx fn options (attempt + 1) ?w2 (Some e0) ?lg2 ?s2"
        by (subst retry_loop.simps) (simp add: le again Some Let_def)
      with run have "retry_loop fx ctx fn options (attempt + 1) ?w2 (Some e0) ?lg2 ?s2 =
          (e, lg', s')"
        by simp
      from Suc.IH[OF n this] obtain rs where
        rs: "invoked lg' = invoked ?lg2 @ rs"
          "if rs = [] then e = Some e0 else (e = None) = (last rs = None)"
        by blast
      show ?thesis
      proof (cases "rs = []")
        case True
        with rs have "invoked lg' = invoked lg @ [Some e0]" "e \<noteq> None" by simp_all
        then show ?thesis by (intro exI[of _ "[Some e0]"]) simp
      next
        case False
        with rs have "invoked lg' = invoked lg @ (Some e0 # rs)"
          "(e = None) = (last (Some e0 # rs) = None)" by simp_all
        then show ?thesis by (intro exI[of _ "Some e0 # rs"]) simp
      qed
    qed
  qed
qed

lemma downloadPrimaryVideo_error_iff:
  "fst (downloadPrimaryVideo os d url downloadPath w) \<noteq> None \<longleftrightarrow>
     dependencyPath d ''yt-dlp'' = [] \<or> dependencyPath d ''aria2c'' = [] \<or>
     (let r = CombinedOutput os (dependencyPath d ''yt-dlp'')
                (primaryVideo_args os (dependencyPath d ''aria2c'') url downloadPath w) w
      in snd (fst r) \<noteq> None \<and>
         snd (fst (CombinedOutput os (dependencyPath d ''yt-dlp'')
                     (primaryVideo_directArgs os url downloadPath (snd r)) (snd r))) \<noteq> None)"
  by (auto simp: downloadPrimaryVideo_def Let_def split: option.splits)

lemma Download_bundle:
  assumes "downloadPath = filepath_Join (downloadDir d) (Sprintf_d (UnixNano os w))"
    and "MkdirAll os downloadPath w = (None, w0)"
    and "Download_thumbnail os d ctx url downloadPath zero_DownloadResult w0 = (r1, w1)"
    and "fst (RetryWithContext (float64_inexact os) ctx
                (downloadPrimaryVideo os d url downloadPath) (Some (retryOpts d)) w1) = None"
  shows "\<exists>r. fst (Download os d ctx url captionLang w) = (Some r, None)"
  unfolding Download_def Let_def assms(1)[symmetric]
  by (simp add: assms(2-4))

text \<open>
  C3 (amended).  Take a run in which the run directory is created and the retry loop
  makes at least one attempt of the primary-video stage.  If every attempt that the
  loop makes fails, then \<open>Download\<close> returns no result and the terminal error that
  wraps the error of the retry loop.  An attempt fails exactly when a tool path is
  missing, or the transfer through the external downloader fails and the direct
  transfer after it fails too.
\<close>

theorem primary_video_failure_aborts:
  assumes "downloadPath = filepath_Join (downloadDir d) (Sprintf_d (UnixNano os w))"
    and "MkdirAll os downloadPath w = (None, w0)"
    and "Download_thumbnail os d ctx url downloadPath zero_DownloadResult w0 = (r1, w1)"
    and "RetryWithContext_log (float64_inexact os) ctx
           (downloadPrimaryVideo os d url downloadPath) (Some (retryOpts d)) w1 = (e, lg, w2)"
    and "invoked lg \<noteq> []"
    and "\<forall>r \<in> set (invoked lg). r \<noteq> None"
  shows "(\<exists>cause. e = Some cause \<and>
           Download os d ctx url captionLang w =
             ((None, Some (Errorf ''failed to download primary video after %d retries: %w''
                             [ArgInt (MaxRetries (retryOpts d)), ArgErr cause])), w2)) \<and>
         (\<forall>s. fst (downloadPrimaryVideo os d url downloadPath s) \<noteq> None \<longleftrightarrow>
            dependencyPath d ''yt-dlp'' = [] \<or> dependencyPath d ''aria2c'' = [] \<or>
            (let r = CombinedOutput os (dependencyPath d ''yt-dlp'')
                       (primaryVideo_args os (dependencyPath d ''aria2c'') url downloadPath s) s
             in snd (fst r) \<noteq> None \<and>
                snd (fst (CombinedOutput os (dependencyPath d ''yt-dlp'')
                     (primaryVideo_directArgs os url downloadPath (snd r)) (snd r))) \<noteq> None))"
proof -
  from assms(4) have "retry_loop (float64_inexact os) ctx
      (downloadPrimaryVideo os d url downloadPath) (retryOpts d) 0 (InitialWait (retryOpts d))
      None no_log w1 = (e, lg, w2)"
    by (simp add: RetryWithContext_log_def Let_def)
  from retry_loop_result[OF refl this] assms(5)
  have "(e = None) = (last (invoked lg) = None)" by (auto simp: no_log_def split: if_splits)
  moreover have "last (invoked lg) \<in> set (invoked lg)" using assms(5) by simp
  ultimately have "e \<noteq> None" using assms(6) by auto
  then obtain cause where c: "e = Some cause" by auto
  have p: "RetryWithContext (float64_inexact os) ctx
      (downloadPrimaryVideo os d url downloadPath) (Some (retryOpts d)) w1 = (Some cause, w2)"
    by (simp add: RetryWithContext_def assms(4) c)
  have "Download os d ctx url captionLang w =
             ((None, Some (Errorf ''failed to download primary video after %d retries: %w''
                             [ArgInt (MaxRetries (retryOpts d)), ArgErr cause])), w2)"
    unfolding Download_def Let_def assms(1)[symmetric]
    by (simp add: assms(2,3) p)
  with c have "\<exists>cause. e = Some cause \<and>
           Download os d ctx url captionLang w =
             ((None, Some (Errorf ''failed to download primary video after %d retries: %w''
                             [ArgInt (MaxRetries (retryOpts d)), ArgErr cause])), w2)"
    by blast
  then show ?thesis using downloadPrimaryVideo_error_iff[of os d url downloadPath] by blast
qed

theorem primary_video_failure_aborts_witness:
  "\<exists>cause. fst (Download os_offline dl background ''https://youtu.be/x'' ''en'' ()) =
     (None, Some (Errorf ''failed to download primary video after %d retries: %w''
                    [ArgInt 3, ArgErr cause]))"
proof -
  let ?url = "''https://youtu.be/x''"
  let ?p = "filepath_Join (downloadDir dl) (Sprintf_d (UnixNano os_offline ()))"
  let ?t = "Download_thumbnail os_offline dl background ?url ?p zero_DownloadResult ()"
  let ?R = "RetryWithContext_log (float64_inexact os_offline) background
              (downloadPrimaryVideo os_offline dl ?url ?p) (Some (retryOpts dl)) ()"
  let ?E = "Errorf ''video download failed with both aria2c and direct methods: %w''
              [ArgErr (ErrorNew ''exit status 1'')]"
  have mr: "MaxRetries (retryOpts dl) = 3"
    by (simp add: dl_def NewVideoDownloader_def WithMaxRetries_def DefaultRetryOptions_def)
  have h2: "MkdirAll os_offline ?p () = (None, ())"
    by (simp add: os_offline_def os_ok_def)
  have h3: "?t = (fst ?t, ())" by (simp add: prod_eq_iff)
  have h4: "?R = (fst ?R, fst (snd ?R), ())" by (simp add: prod_eq_iff)
  have f: "downloadPrimaryVideo os_offline dl ?url ?p s = (Some ?E, ())" for s
    by (simp add: downloadPrimaryVideo_def dependencyPath_def dl_def NewVideoDownloader_def
          tools_def os_offline_def os_ok_def Let_def)
  have i: "invoked (fst (snd ?R)) = [Some ?E, Some ?E, Some ?E, Some ?E]"
    unfolding RetryWithContext_log_def
    by (simp add: retry_loop.simps f background_def no_log_def Let_def mr)
  have h5: "invoked (fst (snd ?R)) \<noteq> []" and h6: "\<forall>r \<in> set (invoked (fst (snd ?R))). r \<noteq> None"
    unfolding i by simp_all
  from primary_video_failure_aborts[OF refl h2 h3 h4 h5 h6, of "''en''", THEN conjunct1]
  show ?thesis
    by (auto simp: dl_def NewVideoDownloader_def WithMaxRetries_def DefaultRetryOptions_def)
qed

text \<open>
  C3 as stated fails: the stage is retried.  In a world where the first two transfers
  fail and the later ones succeed, the first attempt of the stage fails twice, the
  transfer through the external downloader and then the direct transfer, the second
  attempt succeeds, and \<open>Download\<close> returns a result and a nil error.
\<close>

theorem retried_primary_video_counterexample:
  "snd (Download_thumbnail os_flaky dl background ''https://youtu.be/x''
          (filepath_Join (downloadDir dl) (Sprintf_d (UnixNano os_flaky 0))) zero_DownloadResult
          (snd (MkdirAll os_flaky
                  (filepath_Join (downloadDir dl) (Sprintf_d (UnixNano os_flaky 0))) 0))) = 0 \<and>
   invoked (fst (snd (RetryWithContext_log (float64_inexact os_flaky) background
       (downloadPrimaryVideo os_flaky dl ''https://youtu.be/x''
          (filepath_Join (downloadDir dl) (Sprintf_d (UnixNano os_flaky 0))))
       (Some (retryOpts dl)) 0))) =
     [Some (Errorf ''video download failed with both aria2c and direct methods: %w''
              [ArgErr (ErrorNew ''exit status 1'')]),
      None] \<and>
   snd (fst (Download os_flaky dl background ''https://youtu.be/x'' ''en'' 0)) = None \<and>
   fst (fst (Download os_flaky dl background ''https://youtu.be/x'' ''en'' 0)) \<noteq> None"
proof -
  let ?url = "''https://youtu.be/x''"
  let ?p = "filepath_Join (downloadDir dl) (Sprintf_d (UnixNano os_flaky 0))"
  let ?E = "Errorf ''video download failed with both aria2c and direct methods: %w''
              [ArgErr (ErrorNew ''exit status 1'')]"
  have mr: "MaxRetries (retryOpts dl) = 3"
    by (simp add: dl_def NewVideoDownloader_def WithMaxRetries_def DefaultRetryOptions_def)
  have m: "MkdirAll os_flaky ?p 0 = (None, 0)" by (simp add: os_flaky_def)
  have t: "downloadThumbnail os_flaky dl ?url ?p s =
             (Some (ErrorNew ''no thumbnail found after download''), s)" for s
    by (simp add: downloadThumbnail_def dependencyPath_def dl_def NewVideoDownloader_def
          tools_def os_flaky_def Let_def filepath_Join_def)
  have T: "snd (RetryWithContext (float64_inexact os_flaky) background
             (downloadThumbnail os_flaky dl ?url ?p) (Some (retryOpts dl)) 0) = 0"
    unfolding RetryWithContext_def RetryWithContext_log_def
    by (simp add: retry_loop.simps t background_def no_log_def Let_def mr)
  have T': "snd (Download_thumbnail os_flaky dl background ?url ?p zero_DownloadResult 0) = 0"
    using T by (simp add: Download_thumbnail_def Let_def)
  have p0: "downloadPrimaryVideo os_flaky dl ?url ?p 0 = (Some ?E, 2)"
    by (simp add: downloadPrimaryVideo_def primaryVideo_args_def primaryVideo_directArgs_def
          dependencyPath_def dl_def NewVideoDownloader_def tools_def os_flaky_def Let_def
          filepath_Join_def)
  have p2: "downloadPrimaryVideo os_flaky dl ?url ?p 2 = (None, 2)"
    by (simp add: downloadPrimaryVideo_def primaryVideo_args_def primaryVideo_directArgs_def
          dependencyPath_def dl_def NewVideoDownloader_def tools_def os_flaky_def Let_def
          filepath_Join_def)
  have R: "RetryWithContext_log (float64_inexact os_flaky) background
             (downloadPrimaryVideo os_flaky dl ?url ?p) (Some (retryOpts dl)) 0 =
           (None, \<lparr>invoked = [Some ?E, None], waited = [InitialWait (retryOpts dl)]\<rparr>, 2)"
    unfolding RetryWithContext_log_def
    by (simp add: retry_loop.simps p0 p2 background_def no_log_def Let_def mr)
  have R': "fst (RetryWithContext (float64_inexact os_flaky) background
             (downloadPrimaryVideo os_flaky dl ?url ?p) (Some (retryOpts dl)) 0) = None"
    by (simp add: RetryWithContext_def R)
  have h3: "Download_thumbnail os_flaky dl background ?url ?p zero_DownloadResult 0 =
      (fst (Download_thumbnail os_flaky dl background ?url ?p zero_DownloadResult 0), 0)"
    using T' by (simp add: prod_eq_iff)
  have "\<exists>r. fst (Download os_flaky dl background ?url ''en'' 0) = (Some r, None)"
    using refl m h3 R' by (rule Download_bundle)
  then show ?thesis using m T' R by auto
qed

text \<open>
  C4.  When the run directory was created, the primary-video stage succeeded and the
  retried subtitle download returns an error, \<open>Download\<close> returns a result with
  \<open>HasSubtitle = False\<close>, empty subtitle and embedded-video paths and the primary video
  as its non-empty video path; the subtitle block ends in the state in which the retry
  returned, so the embedding was not run.
\<close>

theorem subtitle_failure_degrades:
  assumes "downloadPath = filepath_Join (downloadDir d) (Sprintf_d (UnixNano os w))"
    and "MkdirAll os downloadPath w = (None, w0)"
    and "Download_thumbnail os d ctx url downloadPath zero_DownloadResult w0 = (r1, w1)"
    and "RetryWithContext (float64_inexact os) ctx (downloadPrimaryVideo os d url downloadPath)
           (Some (retryOpts d)) w1 = (None, w2)"
    and "RetryWithContext (float64_inexact os) (with_var ctx)
           (subtitle_fn os d url captionLang downloadPath)
           (Some (retryOpts d)) ([], w2) = (Some e, sp, w3)"
  shows "\<exists>r w'. Download os d ctx url captionLang w = ((Some r, None), w') \<and>
           \<not> HasSubtitle r \<and> SubtitlePath r = [] \<and> VideoWithSubPath r = [] \<and>
           VideoPath r = filepath_Join downloadPath ''video_base.mp4'' \<and> VideoPath r \<noteq> [] \<and>
           (\<forall>r'. Download_subtitle os d ctx url captionLang downloadPath r' w2 = (r', w3))"
proof -
  have sub: "Download_subtitle os d ctx url captionLang downloadPath r' w2 = (r', w3)" for r'
    by (simp add: Download_subtitle_def Let_def assms(5))
  have r1: "artifacts_ok downloadPath r1"
    using Download_thumbnail_ok[OF artifacts_ok_zero, of downloadPath os d ctx url w0]
    by (simp add: assms(3))
  have r1f: "\<not> HasSubtitle r1 \<and> SubtitlePath r1 = [] \<and> VideoWithSubPath r1 = []"
    using Download_thumbnail_frame[of os d ctx url downloadPath zero_DownloadResult w0]
    unfolding assms(3) by (simp add: zero_DownloadResult_def)
  let ?v = "filepath_Join downloadPath ''video_base.mp4''"
  let ?result1 = "r1\<lparr>VideoPath := ?v\<rparr>"
  let ?result2 = "case Stat os (VideoPath ?result1) w2 of
                    Inl err \<Rightarrow> ?result1
                  | Inr fileSize \<Rightarrow> ?result1\<lparr>FileSize := fileSize\<rparr>"
  let ?a = "Download_audio os d ctx url downloadPath ?result2 w3"
  let ?dur = "getVideoDuration os d (VideoPath (fst ?a)) (snd ?a)"
  let ?f = "Download_thumbnail_fallback os d downloadPath
              ((fst ?a)\<lparr>Duration := fst ?dur\<rparr>) (snd ?dur)"
  have e: "fst (MkdirAll os downloadPath w) = None" "snd (MkdirAll os downloadPath w) = w0"
    "fst (Download_thumbnail os d ctx url downloadPath zero_DownloadResult w0) = r1"
    "snd (Download_thumbnail os d ctx url downloadPath zero_DownloadResult w0) = w1"
    "fst (RetryWithContext (float64_inexact os) ctx (downloadPrimaryVideo os d url downloadPath)
         (Some (retryOpts d)) w1) = None"
    "snd (RetryWithContext (float64_inexact os) ctx (downloadPrimaryVideo os d url downloadPath)
         (Some (retryOpts d)) w1) = w2"
    by (simp_all add: assms(2-4))
  define fr where "fr = ?f"
  have D: "Download os d ctx url captionLang w = ((Some (fst fr), None), snd fr)"
    unfolding Download_def Let_def assms(1)[symmetric] e sub fr_def
    by simp
  have r2: "\<not> HasSubtitle ?result2 \<and> SubtitlePath ?result2 = [] \<and>
      VideoWithSubPath ?result2 = [] \<and> VideoPath ?result2 = ?v"
    using r1f by (auto split: sum.split)
  have a: "\<not> HasSubtitle (fst ?a) \<and> SubtitlePath (fst ?a) = [] \<and>
      VideoWithSubPath (fst ?a) = [] \<and> VideoPath (fst ?a) = ?v"
    using r2 Download_audio_frame[of os d ctx url downloadPath ?result2 w3]
      Download_audio_ok[of downloadPath ?result2 os d ctx url w3] r1
    by (auto simp: artifacts_ok_updates split: sum.split)
  have f: "\<not> HasSubtitle (fst fr) \<and> SubtitlePath (fst fr) = [] \<and>
      VideoWithSubPath (fst fr) = [] \<and> VideoPath (fst fr) = ?v"
    unfolding fr_def
    using a Download_thumbnail_fallback_frame[of os d downloadPath
        "(fst ?a)\<lparr>Duration := fst ?dur\<rparr>" "snd ?dur"]
      Download_thumbnail_fallback_ok[of downloadPath "(fst ?a)\<lparr>Duration := fst ?dur\<rparr>" os d
        "snd ?dur"]
      Download_audio_ok[of downloadPath ?result2 os d ctx url w3] r1
    by (auto simp: artifacts_ok_updates split: sum.split)
  have "?v \<noteq> []" by (rule filepath_Join_nonempty) simp
  with D f sub show ?thesis by auto
qed

theorem subtitle_failure_degrades_witness:
  "\<exists>r w'. Download os_no_subtitles dl background ''https://youtu.be/x'' ''en'' () =
       ((Some r, None), w') \<and>
     \<not> HasSubtitle r \<and> SubtitlePath r = [] \<and> VideoWithSubPath r = [] \<and> VideoPath r \<noteq> []"
proof -
  let ?url = "''https://youtu.be/x''"
  let ?p = "filepath_Join (downloadDir dl) (Sprintf_d (UnixNano os_no_subtitles ()))"
  let ?t = "Download_thumbnail os_no_subtitles dl background ?url ?p zero_DownloadResult ()"
  let ?R = "RetryWithContext (float64_inexact os_no_subtitles) (with_var background)
              (subtitle_fn os_no_subtitles dl ?url ''en'' ?p) (Some (retryOpts dl)) ([], ())"
  have m: "0 \<le> MaxRetries (retryOpts dl)"
    by (simp add: dl_def NewVideoDownloader_def WithMaxRetries_def DefaultRetryOptions_def)
  have h2: "MkdirAll os_no_subtitles ?p () = (None, ())"
    by (simp add: os_no_subtitles_def os_ok_def)
  have h3: "?t = (fst ?t, ())" by (simp add: prod_eq_iff)
  have "downloadPrimaryVideo os_no_subtitles dl ?url ?p () = (None, ())"
    by (simp add: downloadPrimaryVideo_def primaryVideo_args_def dependencyPath_def dl_def
          NewVideoDownloader_def tools_def os_no_subtitles_def os_ok_def Let_def
          filepath_Join_def)
  then have h4: "RetryWithContext (float64_inexact os_no_subtitles) background
          (downloadPrimaryVideo os_no_subtitles dl ?url ?p)
          (Some (retryOpts dl)) () = (None, ())"
    using m by (rule RetryWithContext_first_success)
  have "\<forall>s. fst (subtitle_fn os_no_subtitles dl ?url ''en'' ?p s) \<noteq> None"
    by (simp add: subtitle_fn_def downloadSubtitle_def dependencyPath_def dl_def
          NewVideoDownloader_def tools_def os_no_subtitles_def os_ok_def Let_def)
  then have "fst ?R \<noteq> None" using m by (rule RetryWithContext_fails)
  then obtain e where h5: "?R = (Some e, fst (snd ?R), ())"
    by (cases ?R) auto
  from subtitle_failure_degrades[OF refl h2 h3 h4 h5] show ?thesis by blast
qed

end
